theory Spec2Isabelle
  imports Complex_Main
begin

section \<open>Vectors and the library functions main.cpp calls\<close>

text \<open>
  The program computes in \<open>float\<close>; the development models a \<open>float\<close> by a
  \<^typ>\<open>real\<close>, so every statement below is about the arithmetic the code writes
  down, not about its rounding. \<open>glm::vec3\<close> is a triple of such numbers.
\<close>

datatype vec3 = Vec3 (vx: real) (vy: real) (vz: real)

instantiation vec3 :: "{plus, minus, uminus}"
begin

definition plus_vec3 :: "vec3 \<Rightarrow> vec3 \<Rightarrow> vec3" where
  "plus_vec3 a b = Vec3 (vx a + vx b) (vy a + vy b) (vz a + vz b)"

definition minus_vec3 :: "vec3 \<Rightarrow> vec3 \<Rightarrow> vec3" where
  "minus_vec3 a b = Vec3 (vx a - vx b) (vy a - vy b) (vz a - vz b)"

definition uminus_vec3 :: "vec3 \<Rightarrow> vec3" where
  "uminus_vec3 a = Vec3 (- vx a) (- vy a) (- vz a)"

instance ..

end

text \<open>\<open>v * s\<close> for a vector \<open>v\<close> and a scalar \<open>s\<close>.\<close>

definition vmul :: "vec3 \<Rightarrow> real \<Rightarrow> vec3" where
  "vmul v s = Vec3 (vx v * s) (vy v * s) (vz v * s)"

text \<open>\<open>glm::mix(x, y, a)\<close> is \<open>x * (1 - a) + y * a\<close>, componentwise.\<close>

definition mix :: "vec3 \<Rightarrow> vec3 \<Rightarrow> real \<Rightarrow> vec3" where
  "mix a b t = vmul a (1 - t) + vmul b t"

text \<open>\<open>glm::length\<close>, \<open>glm::normalize\<close> (\<open>v * inversesqrt(dot(v, v))\<close>) and
  \<open>glm::cross\<close>. On the zero vector the C++ \<open>normalize\<close> yields NaNs, while the
  division below yields the zero vector.\<close>

definition dot :: "vec3 \<Rightarrow> vec3 \<Rightarrow> real" where
  "dot a b = vx a * vx b + vy a * vy b + vz a * vz b"

definition glm_length :: "vec3 \<Rightarrow> real" where
  "glm_length v = sqrt (dot v v)"

definition normalize_vec :: "vec3 \<Rightarrow> vec3" where
  "normalize_vec v = vmul v (1 / sqrt (dot v v))"

definition cross :: "vec3 \<Rightarrow> vec3 \<Rightarrow> vec3" where
  "cross a b = Vec3 (vy a * vz b - vy b * vz a)
                    (vz a * vx b - vz b * vx a)
                    (vx a * vy b - vx b * vy a)"

text \<open>\<open>atan2(y, x)\<close> of \<open>math.h\<close>: the angle of the point \<open>(x, y)\<close>, in
  \<open>(-\<pi>, \<pi>]\<close>, and 0 at the origin.\<close>

definition atan2 :: "real \<Rightarrow> real \<Rightarrow> real" where
  "atan2 y x =
     (if 0 < x then arctan (y / x)
      else if x < 0 then (if 0 \<le> y then arctan (y / x) + pi else arctan (y / x) - pi)
      else if 0 < y then pi / 2
      else if y < 0 then - (pi / 2)
      else 0)"

text \<open>\<open>std::remove_if\<close> followed by \<open>erase\<close>. The predicate of main.cpp compares the
  address of the element it is given, so the predicate here receives the slot as well;
  \<open>remove_if\<close> tests every element in the slot it had on entry.\<close>

definition erase_remove_if :: "(nat \<Rightarrow> 'a \<Rightarrow> bool) \<Rightarrow> 'a list \<Rightarrow> 'a list" where
  "erase_remove_if pred xs =
     map snd (filter (\<lambda>(addr, obj). \<not> pred addr obj) (enumerate 0 xs))"

section \<open>Objects, the scene and the program state\<close>

text \<open>
  Modelled from the spec: \<open>Object3D\<close> (Object3D.h is not among the sources). An object
  has a local position, an orientation in Euler angles, a scale and a name that is empty
  by default; \<open>move\<close> and \<open>rotate\<close> add to position and orientation, \<open>grow\<close>
  multiplies the scale, \<open>setPosition\<close> and \<open>setOrientation\<close> replace, and the
  getters read. Meshes and child objects are left out: main.cpp reaches a child only
  through \<open>sunRef\<close>, and never reads a mesh.
\<close>

record Object3D =
  position :: vec3
  orientation :: vec3
  scaling :: vec3
  name :: string

definition new_Object3D :: Object3D where
  "new_Object3D = \<lparr>position = Vec3 0 0 0, orientation = Vec3 0 0 0,
                    scaling = Vec3 1 1 1, name = ''''\<rparr>"

definition move :: "vec3 \<Rightarrow> Object3D \<Rightarrow> Object3D" where
  "move d obj = obj\<lparr>position := position obj + d\<rparr>"

definition rotate_obj :: "vec3 \<Rightarrow> Object3D \<Rightarrow> Object3D" where
  "rotate_obj d obj = obj\<lparr>orientation := orientation obj + d\<rparr>"

definition grow :: "vec3 \<Rightarrow> Object3D \<Rightarrow> Object3D" where
  "grow f obj = obj\<lparr>scaling := Vec3 (vx (scaling obj) * vx f) (vy (scaling obj) * vy f)
                                     (vz (scaling obj) * vz f)\<rparr>"

definition setPosition :: "vec3 \<Rightarrow> Object3D \<Rightarrow> Object3D" where
  "setPosition p obj = obj\<lparr>position := p\<rparr>"

definition setOrientation :: "vec3 \<Rightarrow> Object3D \<Rightarrow> Object3D" where
  "setOrientation r obj = obj\<lparr>orientation := r\<rparr>"

definition setName :: "string \<Rightarrow> Object3D \<Rightarrow> Object3D" where
  "setName n obj = obj\<lparr>name := n\<rparr>"

definition getPosition :: "Object3D \<Rightarrow> vec3" where
  "getPosition obj = position obj"

definition getName :: "Object3D \<Rightarrow> string" where
  "getName obj = name obj"

text \<open>
  Modelled from the spec: \<open>RotationAnimation\<close> and \<open>Animator\<close> (Animator.h is not
  among the sources). An animation refers to its target, here by the slot of the target
  in the scene's object list, and has a duration, a total rotation and the time elapsed
  so far. \<open>start\<close> resets the elapsed time. \<open>tick dt\<close> adds \<open>dt\<close> to the elapsed
  time, rotates the target by the share \<open>dt / duration\<close> of the total rotation, and
  reports completion once the elapsed time has reached the duration. The spec also
  speaks of clamping at completion; it gives no formula for it, and nothing overshoots
  while the frame times sum to the duration. A target slot outside the list is a dangling
  reference: the result is \<open>None\<close>.
\<close>

record RotationAnimation =
  target :: nat
  duration :: real
  totalRotation :: vec3
  elapsed :: real

definition start_animation :: "RotationAnimation \<Rightarrow> RotationAnimation" where
  "start_animation a = a\<lparr>elapsed := 0\<rparr>"

definition tick_animation ::
  "real \<Rightarrow> RotationAnimation \<Rightarrow> Object3D list \<Rightarrow> (bool \<times> RotationAnimation \<times> Object3D list) option" where
  "tick_animation dt a objs =
     (if target a < length objs then
        Some (duration a \<le> elapsed a + dt,
              a\<lparr>elapsed := elapsed a + dt\<rparr>,
              objs[target a := rotate_obj (vmul (totalRotation a) (dt / duration a)) (objs ! target a)])
      else None)"

text \<open>An animator owns its animations; a tick passes the same \<open>dt\<close> to each of them in
  list order and drops those that report completion.\<close>

type_synonym Animator = "RotationAnimation list"

fun tick_animator :: "real \<Rightarrow> Animator \<Rightarrow> Object3D list \<Rightarrow> (Animator \<times> Object3D list) option" where
  "tick_animator dt [] objs = Some ([], objs)"
| "tick_animator dt (a # rest) objs =
     (case tick_animation dt a objs of
        None \<Rightarrow> None
      | Some (done, a', objs') \<Rightarrow>
          (case tick_animator dt rest objs' of
             None \<Rightarrow> None
           | Some (rest', objs'') \<Rightarrow> Some (if done then rest' else a' # rest', objs'')))"

fun tick_animators :: "real \<Rightarrow> Animator list \<Rightarrow> Object3D list \<Rightarrow> (Animator list \<times> Object3D list) option" where
  "tick_animators dt [] objs = Some ([], objs)"
| "tick_animators dt (an # rest) objs =
     (case tick_animator dt an objs of
        None \<Rightarrow> None
      | Some (an', objs') \<Rightarrow>
          (case tick_animators dt rest objs' of
             None \<Rightarrow> None
           | Some (rest', objs'') \<Rightarrow> Some (an' # rest', objs'')))"

text \<open>\<open>struct Scene\<close>. The shader program is a handle.\<close>

type_synonym ShaderProgram = nat

record Scene =
  program :: ShaderProgram
  objects :: "Object3D list"
  animators :: "Animator list"

text \<open>
  The state of the process: the global variables of main.cpp under their names, and the
  locals \<open>myScene\<close> and \<open>running\<close> of \<open>main\<close>. A pointer into \<open>myScene.objects\<close>
  is the slot it addresses (\<open>None\<close> is \<open>nullptr\<close>): the array is not reallocated
  once the scene is built, so a slot is an address, and erasing an element moves every
  later element one slot down under the pointers. \<open>sunRef\<close> points into the child
  storage of the sky object, which is not part of that array; the pointer is modelled
  together with the cell it addresses. \<open>slept\<close> counts the milliseconds spent in
  \<open>Sleep\<close>.
\<close>

record world =
  myScene :: Scene
  running :: bool
  creeperRef :: "nat option"
  sunRef :: "Object3D option"
  steveRef :: "nat option"
  pigRef :: "nat option"
  creeperYaw :: real
  cameraPos :: vec3
  cameraFront :: vec3
  cameraUp :: vec3
  yaw :: real
  pitch :: real
  sunTime :: real
  ambientColor :: vec3
  pigFleeDir :: vec3
  steveFleeDir :: vec3
  slept :: nat

definition mapMinX :: real where "mapMinX = - 50"
definition mapMaxX :: real where "mapMaxX = 50"
definition mapMinZ :: real where "mapMinZ = - 50"
definition mapMaxZ :: real where "mapMaxZ = 50"

definition radians :: "real \<Rightarrow> real" where
  "radians d = d * pi / 180"

definition sensitivity :: real where
  "sensitivity = radians 180"

section \<open>The day and night cycle\<close>

text \<open>Lines 339 to 355: the clock \<open>sunTime\<close> advances by the frame time and the
  ambient colour is blended from it; past the last phase only the clock is reset.\<close>

definition day_cycle :: "real \<Rightarrow> world \<Rightarrow> world" where
  "day_cycle deltaTime w =
     (let w1 = w\<lparr>sunTime := sunTime w + deltaTime\<rparr> in
      if sunTime w1 < 30 then
        w1\<lparr>ambientColor := mix (Vec3 1 1 1) (Vec3 1 0.6 0.2) (sunTime w1 / 30)\<rparr>
      else if sunTime w1 < 60 then
        w1\<lparr>ambientColor := mix (Vec3 1 0.6 0.2) (Vec3 0.05 0.05 0.1) ((sunTime w1 - 30) / 30)\<rparr>
      else if sunTime w1 < 90 then
        w1\<lparr>ambientColor := mix (Vec3 0.05 0.05 0.1) (Vec3 1 1 1) ((sunTime w1 - 60) / 30)\<rparr>
      else w1\<lparr>sunTime := 0\<rparr>)"

text \<open>Lines 358 to 367: the sun follows the clock, and is put far away once its
  abscissa would pass 30.\<close>

definition sun_step :: "world \<Rightarrow> world" where
  "sun_step w =
     (case sunRef w of
        None \<Rightarrow> w
      | Some sun \<Rightarrow>
          (let x = - 30 + (sunTime w / 60) * 60;
               x' = (if x > 30 then 1000 else x);
               sunPos = Vec3 x' 40 (- 20)
           in w\<lparr>sunRef := Some (setPosition sunPos sun)\<rparr>))"

section \<open>One frame\<close>

text \<open>What a frame reads from outside: whether a \<open>Closed\<close> event was polled, the time
  since the last frame in seconds, and the keys held down.\<close>

record frame =
  closed_event :: bool
  diff :: real
  keyW :: bool
  keyS :: bool
  keyA :: bool
  keyD :: bool
  keyUp :: bool
  keyDown :: bool
  keyLeft :: bool
  keyRight :: bool

text \<open>Lines 373 to 388: the keys W, S, A and D turn the camera; the pitch stays within
  89 degrees.\<close>

definition camera_keys :: "frame \<Rightarrow> real \<Rightarrow> world \<Rightarrow> world" where
  "camera_keys inp deltaTime w =
     (let w1 = (if keyW inp then
                  (let p = pitch w + sensitivity * deltaTime
                   in w\<lparr>pitch := (if p > radians 89 then radians 89 else p)\<rparr>)
                else w);
          w2 = (if keyS inp then
                  (let p = pitch w1 - sensitivity * deltaTime
                   in w1\<lparr>pitch := (if p < radians (- 89) then radians (- 89) else p)\<rparr>)
                else w1);
          w3 = (if keyA inp then w2\<lparr>yaw := yaw w2 - sensitivity * deltaTime\<rparr> else w2);
          w4 = (if keyD inp then w3\<lparr>yaw := yaw w3 + sensitivity * deltaTime\<rparr> else w3)
      in w4)"

text \<open>The three statements every arrow key runs on the hunter in slot \<open>c\<close>: move it
  along \<open>h\<close> at speed 2, and turn it to face \<open>h\<close>.\<close>

definition walk :: "nat \<Rightarrow> vec3 \<Rightarrow> real \<Rightarrow> world \<Rightarrow> world" where
  "walk c h deltaTime w =
     (let objs = objects (myScene w);
          moved = move (vmul (vmul h deltaTime) 2) (objs ! c);
          a = atan2 (vx h) (vz h)
      in w\<lparr>creeperYaw := a,
            myScene := (myScene w)\<lparr>objects := objs[c := setOrientation (Vec3 0 a 0) moved]\<rparr>\<rparr>)"

text \<open>Lines 390 to 435: the arrow keys move the hunter relative to the camera, and the
  camera is put behind and above the place the hunter had when the frame began. A hunter
  reference outside the object list is dangling: the result is \<open>None\<close>.\<close>

definition creeper_step :: "frame \<Rightarrow> real \<Rightarrow> world \<Rightarrow> world option" where
  "creeper_step inp deltaTime w =
     (case creeperRef w of
        None \<Rightarrow> Some w
      | Some c \<Rightarrow>
          if c < length (objects (myScene w)) then
            (let creeperPos = getPosition (objects (myScene w) ! c);
                 w1 = (if keyUp inp then
                         walk c (normalize_vec (Vec3 (vx (cameraFront w)) 0 (vz (cameraFront w))))
                           deltaTime w
                       else w);
                 w2 = (if keyDown inp then
                         walk c (normalize_vec (Vec3 (- vx (cameraFront w1)) 0 (- vz (cameraFront w1))))
                           deltaTime w1
                       else w1);
                 w3 = (if keyLeft inp then
                         (let l = normalize_vec (cross (cameraUp w2) (cameraFront w2))
                          in walk c (normalize_vec (Vec3 (vx l) 0 (vz l))) deltaTime w2)
                       else w2);
                 w4 = (if keyRight inp then
                         (let r = normalize_vec (cross (cameraFront w3) (cameraUp w3))
                          in walk c (normalize_vec (Vec3 (vx r) 0 (vz r))) deltaTime w3)
                       else w3);
                 direction = Vec3 (cos (yaw w4) * cos (pitch w4)) (sin (pitch w4))
                                  (sin (yaw w4) * cos (pitch w4));
                 w5 = w4\<lparr>cameraFront := normalize_vec direction\<rparr>;
                 horizontalFront = normalize_vec (Vec3 (vx (cameraFront w5)) 0 (vz (cameraFront w5)));
                 offset = vmul (- horizontalFront) 5 + Vec3 0 3 0
             in Some (w5\<lparr>cameraPos := creeperPos + offset\<rparr>))
          else None)"

section \<open>Fleeing, bouncing and removal\<close>

text \<open>Lines 442 to 447 and 479 to 484: a proposed position beyond an edge of the map
  inverts that component of the flee direction.\<close>

definition bounce :: "vec3 \<Rightarrow> vec3 \<Rightarrow> vec3" where
  "bounce proposedPos fleeDir =
     (let d1 = (if vx proposedPos < mapMinX \<or> vx proposedPos > mapMaxX
                then Vec3 (vx fleeDir * - 1) (vy fleeDir) (vz fleeDir) else fleeDir);
          d2 = (if vz proposedPos < mapMinZ \<or> vz proposedPos > mapMaxZ
                then Vec3 (vx d1) (vy d1) (vz d1 * - 1) else d1)
      in d2)"

text \<open>Lines 438 to 451 and 474 to 489, for the target in slot \<open>t\<close>: the direction
  after the bounce, and the object list with the target moved and turned.\<close>

definition flee_move :: "real \<Rightarrow> nat \<Rightarrow> vec3 \<Rightarrow> Object3D list \<Rightarrow> vec3 \<times> Object3D list" where
  "flee_move deltaTime t fleeDir objs =
     (let pos = getPosition (objs ! t);
          proposedPos = pos + vmul (vmul fleeDir deltaTime) 1;
          fleeDir' = bounce proposedPos fleeDir;
          proposedPos' = pos + vmul (vmul fleeDir' deltaTime) 1
      in (fleeDir',
          objs[t := setOrientation (Vec3 0 (atan2 (vx fleeDir') (vz fleeDir')) 0)
                      (setPosition proposedPos' (objs ! t))]))"

text \<open>Lines 463 to 468 and 499 to 504: the hunter reference becomes the first slot whose
  object is named Creeper, and stays as it is when there is none.\<close>

fun relink :: "nat \<Rightarrow> Object3D list \<Rightarrow> nat option \<Rightarrow> nat option" where
  "relink i [] ref = ref"
| "relink i (obj # rest) ref =
     (if getName obj = ''Creeper'' then Some i else relink (Suc i) rest ref)"

text \<open>Lines 453 to 469 and 492 to 505, for the hunter in slot \<open>c\<close> and the target in
  slot \<open>t\<close>: the object list, the target reference and the hunter reference afterwards.\<close>

definition explode :: "nat \<Rightarrow> nat \<Rightarrow> Object3D list \<Rightarrow> Object3D list \<times> nat option \<times> nat option" where
  "explode c t objs =
     (let dist = glm_length (getPosition (objs ! c) - getPosition (objs ! t)) in
      if dist < 0.8 then
        (let objs' = erase_remove_if (\<lambda>addr obj. addr = t) objs
         in (objs', None, relink 0 objs' (Some c)))
      else (objs, Some t, Some c))"

text \<open>Lines 437 to 470. Reading through a reference beyond the object list is undefined
  in C++: the result is \<open>None\<close>.\<close>

definition steve_step :: "real \<Rightarrow> world \<Rightarrow> world option" where
  "steve_step deltaTime w =
     (case (creeperRef w, steveRef w) of
        (Some c, Some t) \<Rightarrow>
          if c < length (objects (myScene w)) \<and> t < length (objects (myScene w)) then
            (let (fleeDir', moved) = flee_move deltaTime t (steveFleeDir w) (objects (myScene w));
                 (objs', tref, cref) = explode c t moved
             in Some (w\<lparr>steveFleeDir := fleeDir',
                         myScene := (myScene w)\<lparr>objects := objs'\<rparr>,
                         steveRef := tref, creeperRef := cref\<rparr>))
          else None
      | _ \<Rightarrow> Some w)"

text \<open>Lines 473 to 506.\<close>

definition pig_step :: "real \<Rightarrow> world \<Rightarrow> world option" where
  "pig_step deltaTime w =
     (case (creeperRef w, pigRef w) of
        (Some c, Some t) \<Rightarrow>
          if c < length (objects (myScene w)) \<and> t < length (objects (myScene w)) then
            (let (fleeDir', moved) = flee_move deltaTime t (pigFleeDir w) (objects (myScene w));
                 (objs', tref, cref) = explode c t moved
             in Some (w\<lparr>pigFleeDir := fleeDir',
                         myScene := (myScene w)\<lparr>objects := objs'\<rparr>,
                         pigRef := tref, creeperRef := cref\<rparr>))
          else None
      | _ \<Rightarrow> Some w)"

text \<open>Lines 324 to 558, one pass through the body of the frame loop. Drawing and the
  lines written to \<open>std::cout\<close> change nothing of the state and are left out. The
  last test stops the loop once both targets are gone, after \<open>Sleep(3)\<close>.\<close>

definition tick :: "frame \<Rightarrow> world \<Rightarrow> world option" where
  "tick inp w =
     (let w0 = (if closed_event inp then w\<lparr>running := False\<rparr> else w);
          deltaTime = diff inp;
          w1 = camera_keys inp deltaTime (sun_step (day_cycle deltaTime w0))
      in case creeper_step inp deltaTime w1 of
           None \<Rightarrow> None
         | Some w2 \<Rightarrow>
        (case steve_step deltaTime w2 of
           None \<Rightarrow> None
         | Some w3 \<Rightarrow>
        (case pig_step deltaTime w3 of
           None \<Rightarrow> None
         | Some w4 \<Rightarrow>
        (case tick_animators deltaTime (animators (myScene w4)) (objects (myScene w4)) of
           None \<Rightarrow> None
         | Some (anims, objs) \<Rightarrow>
             (let w5 = w4\<lparr>myScene := (myScene w4)\<lparr>objects := objs, animators := anims\<rparr>\<rparr>
              in Some (if steveRef w5 = None \<and> pigRef w5 = None
                       then w5\<lparr>slept := slept w5 + 3, running := False\<rparr>
                       else w5))))))"

text \<open>\<open>while (running)\<close>, over the frames the environment supplies. The loop has no
  bound of its own: when the frames given are used up and \<open>running\<close> still holds, the
  result is \<open>Pending\<close>.\<close>

datatype run = Finished world | Pending world | Undefined

fun frame_loop :: "frame list \<Rightarrow> world \<Rightarrow> run" where
  "frame_loop [] w = (if running w then Pending w else Finished w)"
| "frame_loop (inp # rest) w =
     (if running w then
        (case tick inp w of None \<Rightarrow> Undefined | Some w' \<Rightarrow> frame_loop rest w')
      else Finished w)"

section \<open>Start-up\<close>

text \<open>
  Modelled from the spec: \<open>ShaderProgram::load\<close> (ShaderProgram.h is not among the
  sources) either succeeds, leaving the program loaded, or fails with a runtime error
  that carries a message.
\<close>

datatype load_result = Loaded ShaderProgram | Runtime_error string

text \<open>Lines 38 to 64. A failure is the line written to \<open>std::cout\<close> and the status
  passed to \<open>exit\<close>.\<close>

definition phongLightingShader :: "load_result \<Rightarrow> (string \<times> int) + ShaderProgram" where
  "phongLightingShader r =
     (case r of
        Runtime_error what \<Rightarrow> Inl (''ERROR: '' @ what, 1)
      | Loaded shader \<Rightarrow> Inr shader)"

definition texturingShader :: "load_result \<Rightarrow> (string \<times> int) + ShaderProgram" where
  "texturingShader r =
     (case r of
        Runtime_error what \<Rightarrow> Inl (''ERROR: '' @ what, 1)
      | Loaded shader \<Rightarrow> Inr shader)"

text \<open>The objects \<open>assimpLoad\<close> returns for the five model files.\<close>

record models =
  creeperModel :: Object3D
  steveModel :: Object3D
  pigModel :: Object3D
  cloudModel :: Object3D
  sunModel :: Object3D

text \<open>The state before \<open>main\<close> runs: the globals as lines 185 to 276 initialise them.
  \<open>cameraTarget\<close> is read only to initialise \<open>cameraFront\<close>, and \<open>cameraSpeed\<close>
  is read nowhere; neither is kept. \<open>myScene\<close> is not built yet, and the empty scene
  stands for it.\<close>

definition startup :: world where
  "startup =
     \<lparr>myScene = \<lparr>program = 0, objects = [], animators = []\<rparr>,
      running = False,
      creeperRef = None, sunRef = None, steveRef = None, pigRef = None,
      creeperYaw = 0,
      cameraPos = Vec3 0 1 5,
      cameraFront = normalize_vec (Vec3 0 0 0 - Vec3 0 1 5),
      cameraUp = Vec3 0 1 0,
      yaw = - 90, pitch = 0,
      sunTime = 0, ambientColor = Vec3 1 1 1,
      pigFleeDir = Vec3 1 0 0, steveFleeDir = Vec3 (- 1) 0 0,
      slept = 0\<rparr>"

text \<open>Lines 198 to 209: the floor, 101 rows of 101 tiles.\<close>

definition tiles :: "Object3D list" where
  "tiles =
     concat (map (\<lambda>x. map (\<lambda>z. rotate_obj (Vec3 (- pi / 2) 0 0)
                                 (move (Vec3 (of_int x * 1) (- 1.5) (of_int z * 1)) new_Object3D))
                        [- (100 div 2) .. 100 div 2])
                 [- (100 div 2) .. 100 div 2])"

text \<open>Lines 192 to 253. Each reference is taken to the last slot of the list at the
  moment of the \<open>push_back\<close> before it; \<open>sunRef\<close> is taken to the first child of the
  sky.\<close>

definition minecraftScene :: "load_result \<Rightarrow> models \<Rightarrow> world \<Rightarrow> (string \<times> int) + world" where
  "minecraftScene r m w =
     (case texturingShader r of
        Inl failure \<Rightarrow> Inl failure
      | Inr shader \<Rightarrow>
          (let creeper = grow (Vec3 1.5 1.5 1.5)
                           (move (Vec3 0 0 0) (setName ''Creeper'' (creeperModel m)));
               steve = setOrientation (Vec3 0 pi 0)
                         (move (Vec3 0 0 6) (grow (Vec3 0.1 0.1 0.1) (steveModel m)));
               objs1 = tiles @ [steve];
               steveRef' = Some (length objs1 - 1);
               pig = setOrientation (Vec3 0 pi 0)
                       (move (Vec3 0 0 (- 6)) (grow (Vec3 0.1 0.1 0.1) (pigModel m)));
               objs2 = objs1 @ [pig];
               pigRef' = Some (length objs2 - 1);
               sky = new_Object3D;
               sun = grow (Vec3 0.3 0.3 0.3) (move (Vec3 (- 30) 40 (- 20)) (sunModel m));
               objs3 = objs2 @ [sky];
               sunRef' = Some sun;
               objs4 = objs3 @ [creeper];
               creeperRef' = Some (length objs4 - 1)
           in Inr (w\<lparr>myScene := \<lparr>program = shader, objects = objs4, animators = []\<rparr>,
                      steveRef := steveRef', pigRef := pigRef', sunRef := sunRef',
                      creeperRef := creeperRef'\<rparr>)))"

text \<open>How the process ends: with an exit status and the error lines it wrote, still in
  the loop when the frames given are used up, or in undefined behaviour.\<close>

datatype outcome = Exit int "string list" | Still_running world | Undefined_behaviour

text \<open>Lines 283 to 561.\<close>

definition main_prog :: "load_result \<Rightarrow> models \<Rightarrow> frame list \<Rightarrow> outcome" where
  "main_prog r m frames =
     (case minecraftScene r m startup of
        Inl (line, status) \<Rightarrow> Exit status [line]
      | Inr w \<Rightarrow>
          (let w1 = w\<lparr>running := True,
                      myScene := (myScene w)\<lparr>animators :=
                        map (map start_animation) (animators (myScene w))\<rparr>\<rparr>
           in case frame_loop frames w1 of
                Finished w' \<Rightarrow> Exit 0 []
              | Pending w' \<Rightarrow> Still_running w'
              | Undefined \<Rightarrow> Undefined_behaviour))"

section \<open>The properties, in the words of the specification\<close>

text \<open>Linear interpolation from \<open>a\<close> to \<open>b\<close> with blend fraction \<open>f\<close>.\<close>

definition lerp :: "vec3 \<Rightarrow> vec3 \<Rightarrow> real \<Rightarrow> vec3" where
  "lerp a b f = a + vmul (b - a) f"

text \<open>Ticking one animation through a sequence of frame times, with the completion
  reports in order.\<close>

fun run_animation ::
  "real list \<Rightarrow> RotationAnimation \<Rightarrow> Object3D list \<Rightarrow> (bool list \<times> RotationAnimation \<times> Object3D list) option" where
  "run_animation [] a objs = Some ([], a, objs)"
| "run_animation (dt # dts) a objs =
     (case tick_animation dt a objs of
        None \<Rightarrow> None
      | Some (done, a', objs') \<Rightarrow>
          (case run_animation dts a' objs' of
             None \<Rightarrow> None
           | Some (reports, a'', objs'') \<Rightarrow> Some (done # reports, a'', objs'')))"

section \<open>Concrete states\<close>

text \<open>The scene as \<open>main\<close> has it when the loop starts, for model files that load as
  plain objects, and the same scene with the hunter put at a given place.\<close>

definition plain_models :: models where
  "plain_models = \<lparr>creeperModel = new_Object3D, steveModel = new_Object3D,
                    pigModel = new_Object3D, cloudModel = new_Object3D,
                    sunModel = new_Object3D\<rparr>"

definition built :: world where
  "built = (case minecraftScene (Loaded 1) plain_models startup of
              Inr w \<Rightarrow> w\<lparr>running := True\<rparr>
            | Inl failure \<Rightarrow> startup)"


definition quiet :: "real \<Rightarrow> frame" where
  "quiet dt = \<lparr>closed_event = False, diff = dt, keyW = False, keyS = False, keyA = False,
               keyD = False, keyUp = False, keyDown = False, keyLeft = False,
               keyRight = False\<rparr>"

text \<open>Two runs of frames. In \<open>first_catch\<close> the Down and Left arrows are held for a
  frame of three seconds, and a second frame of three seconds follows with no key held.
  \<open>chase\<close> goes on with four frames: the A key held for \<open>31 - 90 / \<pi>\<close> seconds (about
  2.35), which turns the camera to a yaw of \<open>-31 \<pi>\<close>; the Down arrow held for four and a
  half seconds; the Right arrow held for six seconds; and one second with no key held.\<close>

definition first_catch :: "frame list" where
  "first_catch = [(quiet 3)\<lparr>keyDown := True, keyLeft := True\<rparr>, quiet 3]"

definition chase :: "frame list" where
  "chase = first_catch @
     [(quiet (31 - 90 / pi))\<lparr>keyA := True\<rparr>, (quiet (9/2))\<lparr>keyDown := True\<rparr>,
      (quiet 6)\<lparr>keyRight := True\<rparr>, quiet 1]"

text \<open>The objects of \<open>built\<close> that are not tiles.\<close>

definition steve0 :: Object3D where
  "steve0 = \<lparr>position = Vec3 0 0 6, orientation = Vec3 0 pi 0,
             scaling = Vec3 0.1 0.1 0.1, name = ''''\<rparr>"

definition pig0 :: Object3D where
  "pig0 = \<lparr>position = Vec3 0 0 (- 6), orientation = Vec3 0 pi 0,
           scaling = Vec3 0.1 0.1 0.1, name = ''''\<rparr>"

definition creeper0 :: Object3D where
  "creeper0 = \<lparr>position = Vec3 0 0 0, orientation = Vec3 0 0 0,
               scaling = Vec3 1.5 1.5 1.5, name = ''Creeper''\<rparr>"

text \<open>The scene after the first target was caught, and the scene after the second target
  was caught, with the hunter at a given place.\<close>

definition pig_left :: "vec3 \<Rightarrow> world" where
  "pig_left p =
     built\<lparr>myScene := (myScene built)
              \<lparr>objects := tiles @ [pig0, new_Object3D, creeper0\<lparr>position := p\<rparr>]\<rparr>,
           steveRef := None, creeperRef := Some 10203\<rparr>"


text \<open>Lines 78 to 101, the scene of the spinning bunny, for the object \<open>assimpLoad\<close>
  returns: one object, and one animator with one animation that turns it once around
  the vertical axis in ten seconds.\<close>

definition bunny :: "load_result \<Rightarrow> Object3D \<Rightarrow> (string \<times> int) + Scene" where
  "bunny r model =
     (case texturingShader r of
        Inl failure \<Rightarrow> Inl failure
      | Inr shader \<Rightarrow>
          (let b = move (Vec3 0.2 (- 1) 0) (grow (Vec3 9 9 9) model);
               objs = [b];
               spinBunny = [\<lparr>target = 0, duration = 10.0,
                             totalRotation = Vec3 0 (2 * pi) 0, elapsed = 0\<rparr>]
           in Inr \<lparr>program = shader, objects = objs, animators = [spinBunny]\<rparr>))"

section \<open>The shape of the state while the loop runs\<close>

text \<open>The hunter is the last object of the list and the only one named Creeper, the
  hunter reference addresses it, the scene has no animators, and every target reference
  that is set addresses a slot before the hunter's, with a slot to spare for each other
  target reference that is still set behind it.\<close>

definition wellformed :: "world \<Rightarrow> bool" where
  "wellformed w =
     (let objs = objects (myScene w); n = length objs in
      animators (myScene w) = [] \<and> 0 < n \<and> creeperRef w = Some (n - 1) \<and>
      name (objs ! (n - 1)) = ''Creeper'' \<and>
      (\<forall>j < n - 1. name (objs ! j) \<noteq> ''Creeper'') \<and>
      (case (steveRef w, pigRef w) of
         (Some s, Some p) \<Rightarrow> s < p \<and> p + 2 < n
       | (Some s, None) \<Rightarrow> s + 1 < n
       | (None, Some p) \<Rightarrow> p + 1 < n
       | (None, None) \<Rightarrow> True))"

section \<open>Facts about the library functions\<close>

lemma filter_enumerate_neq:
  "k < length xs \<Longrightarrow>
   filter (\<lambda>(addr, obj). addr \<noteq> n + k) (enumerate n xs) =
   enumerate n (take k xs) @ enumerate (n + Suc k) (drop (Suc k) xs)"
proof (induction xs arbitrary: n k)
  case Nil
  then show ?case by simp
next
  case (Cons x xs)
  show ?case
  proof (cases k)
    case 0
    have "filter (\<lambda>(addr, obj). addr \<noteq> n) (enumerate (Suc n) xs) = enumerate (Suc n) xs"
      by (rule filter_True) (auto simp: in_set_enumerate_eq)
    with 0 show ?thesis by simp
  next
    case (Suc j)
    with Cons.prems have "j < length xs" by simp
    from Cons.IH[OF this, of "Suc n"] Suc show ?thesis by simp
  qed
qed

lemma erase_slot:
  "t < length xs \<Longrightarrow> erase_remove_if (\<lambda>addr obj. addr = t) xs = take t xs @ drop (Suc t) xs"
  using filter_enumerate_neq[of t xs 0] by (simp add: erase_remove_if_def)

lemma relink_finds:
  "\<exists>j < length objs. name (objs ! j) = ''Creeper'' \<Longrightarrow>
   \<exists>j < length objs. relink i objs r = Some (i + j) \<and> name (objs ! j) = ''Creeper''
      \<and> (\<forall>k < j. name (objs ! k) \<noteq> ''Creeper'')"
proof (induction objs arbitrary: i)
  case Nil
  then show ?case by simp
next
  case (Cons obj rest)
  show ?case
  proof (cases "name obj = ''Creeper''")
    case True
    then show ?thesis by (auto simp: getName_def intro!: exI[of _ 0])
  next
    case False
    from Cons.prems obtain j0 where
      j0: "j0 < length (obj # rest)" "name ((obj # rest) ! j0) = ''Creeper''"
      by blast
    with False obtain j where "j0 = Suc j" by (cases j0) auto
    with j0 have j: "j < length rest" "name (rest ! j) = ''Creeper''" by auto
    then have "\<exists>j < length rest. name (rest ! j) = ''Creeper''" by blast
    from Cons.IH[OF this, of "Suc i"] obtain j' where
      j': "j' < length rest" "relink (Suc i) rest r = Some (Suc i + j')"
          "name (rest ! j') = ''Creeper''" "\<forall>k < j'. name (rest ! k) \<noteq> ''Creeper''"
      by blast
    show ?thesis
      using False j'
      by (intro exI[of _ "Suc j'"]) (auto simp: getName_def nth_Cons split: nat.splits)
  qed
qed

lemma relink_append:
  "\<forall>obj \<in> set xs. name obj \<noteq> ''Creeper'' \<Longrightarrow>
   relink i (xs @ ys) r = relink (i + length xs) ys r"
  by (induction xs arbitrary: i) (auto simp: getName_def)

lemma sqrt_ratio:
  fixes x y :: real
  assumes "x \<noteq> 0"
  shows "sqrt (1 + (y / x)\<^sup>2) = sqrt (x\<^sup>2 + y\<^sup>2) / \<bar>x\<bar>"
proof -
  have "1 + (y / x)\<^sup>2 = (x\<^sup>2 + y\<^sup>2) / x\<^sup>2"
    using assms by (simp add: field_simps power2_eq_square)
  then show ?thesis by (simp add: real_sqrt_divide)
qed

text \<open>The angle \<open>atan2 y x\<close> points along \<open>(x, y)\<close>.\<close>

lemma atan2_faces:
  fixes x y :: real
  assumes "x \<noteq> 0 \<or> y \<noteq> 0"
  shows "sin (atan2 y x) = y / sqrt (x\<^sup>2 + y\<^sup>2)"
    and "cos (atan2 y x) = x / sqrt (x\<^sup>2 + y\<^sup>2)"
proof -
  have pos: "0 < sqrt (x\<^sup>2 + y\<^sup>2)"
    using assms by (auto simp: sum_power2_gt_zero_iff)
  consider "0 < x" | "x < 0" "0 \<le> y" | "x < 0" "y < 0" | "x = 0" "0 < y" | "x = 0" "y < 0"
    using assms by linarith
  then have "sin (atan2 y x) = y / sqrt (x\<^sup>2 + y\<^sup>2) \<and>
             cos (atan2 y x) = x / sqrt (x\<^sup>2 + y\<^sup>2)"
  proof cases
    case 1
    then show ?thesis
      using pos by (simp add: atan2_def sin_arctan cos_arctan sqrt_ratio)
  next
    case 2
    then show ?thesis
      using pos by (simp add: atan2_def sin_arctan cos_arctan sqrt_ratio)
  next
    case 3
    then show ?thesis
      using pos by (simp add: atan2_def sin_arctan cos_arctan sqrt_ratio)
  next
    case 4
    then show ?thesis by (simp add: atan2_def)
  next
    case 5
    then show ?thesis by (simp add: atan2_def)
  qed
  then show "sin (atan2 y x) = y / sqrt (x\<^sup>2 + y\<^sup>2)"
    and "cos (atan2 y x) = x / sqrt (x\<^sup>2 + y\<^sup>2)"
    by simp_all
qed

lemma glm_length_less:
  assumes "0 < r"
  shows "glm_length v < r \<longleftrightarrow> dot v v < r\<^sup>2"
proof -
  have "sqrt (dot v v) < sqrt (r\<^sup>2) \<longleftrightarrow> dot v v < r\<^sup>2"
    by (rule real_sqrt_less_iff)
  with assms show ?thesis by (simp add: glm_length_def)
qed

lemma mix_lerp: "mix a b f = lerp a b f"
  by (simp add: mix_def lerp_def vmul_def plus_vec3_def minus_vec3_def algebra_simps)

section \<open>Facts about the steps of a frame\<close>

lemma day_cycle_phase1:
  "sunTime w + dt < 30 \<Longrightarrow>
   day_cycle dt w =
     w\<lparr>sunTime := sunTime w + dt,
       ambientColor := mix (Vec3 1 1 1) (Vec3 1 0.6 0.2) ((sunTime w + dt) / 30)\<rparr>"
  by (simp add: day_cycle_def Let_def)

lemma day_cycle_phase2:
  "30 \<le> sunTime w + dt \<Longrightarrow> sunTime w + dt < 60 \<Longrightarrow>
   day_cycle dt w =
     w\<lparr>sunTime := sunTime w + dt,
       ambientColor := mix (Vec3 1 0.6 0.2) (Vec3 0.05 0.05 0.1) ((sunTime w + dt - 30) / 30)\<rparr>"
  by (simp add: day_cycle_def Let_def)

lemma day_cycle_phase3:
  "60 \<le> sunTime w + dt \<Longrightarrow> sunTime w + dt < 90 \<Longrightarrow>
   day_cycle dt w =
     w\<lparr>sunTime := sunTime w + dt,
       ambientColor := mix (Vec3 0.05 0.05 0.1) (Vec3 1 1 1) ((sunTime w + dt - 60) / 30)\<rparr>"
  by (simp add: day_cycle_def Let_def)

lemma day_cycle_reset:
  "90 \<le> sunTime w + dt \<Longrightarrow> day_cycle dt w = w\<lparr>sunTime := 0\<rparr>"
  by (simp add: day_cycle_def Let_def)

lemma vmul_one: "vmul (vmul d dt) 1 = vmul d (1 * dt)"
  by (simp add: vmul_def)

lemma bounce_components:
  "vx (bounce p d) = (if vx p < mapMinX \<or> mapMaxX < vx p then - vx d else vx d)"
  "vy (bounce p d) = vy d"
  "vz (bounce p d) = (if vz p < mapMinZ \<or> mapMaxZ < vz p then - vz d else vz d)"
  by (simp_all add: bounce_def Let_def)

lemma flee_move_dir:
  "fst (flee_move dt t d objs) = bounce (position (objs ! t) + vmul d (1 * dt)) d"
  by (simp add: flee_move_def Let_def getPosition_def vmul_one)

lemma flee_move_objs:
  "snd (flee_move dt t d objs) =
     objs[t := (objs ! t)\<lparr>position := position (objs ! t) + vmul (fst (flee_move dt t d objs)) (1 * dt),
                          orientation := Vec3 0 (atan2 (vx (fst (flee_move dt t d objs)))
                                                       (vz (fst (flee_move dt t d objs)))) 0\<rparr>]"
  by (simp add: flee_move_def Let_def getPosition_def setPosition_def setOrientation_def vmul_one)

lemma length_flee_move [simp]: "length (snd (flee_move dt t d objs)) = length objs"
  by (simp add: flee_move_objs)

lemma name_flee_move [simp]: "name (snd (flee_move dt t d objs) ! j) = name (objs ! j)"
  by (cases "j = t"; cases "t < length objs") (simp_all add: flee_move_objs list_update_beyond)

lemma steve_step_eq:
  assumes "creeperRef w = Some c" "steveRef w = Some t"
    "c < length (objects (myScene w))" "t < length (objects (myScene w))"
  shows "steve_step dt w =
     Some (w\<lparr>steveFleeDir := fst (flee_move dt t (steveFleeDir w) (objects (myScene w))),
             myScene := (myScene w)\<lparr>objects :=
               fst (explode c t (snd (flee_move dt t (steveFleeDir w) (objects (myScene w)))))\<rparr>,
             steveRef := fst (snd (explode c t (snd (flee_move dt t (steveFleeDir w) (objects (myScene w)))))),
             creeperRef := snd (snd (explode c t (snd (flee_move dt t (steveFleeDir w) (objects (myScene w))))))\<rparr>)"
  using assms by (simp add: steve_step_def split_beta)

lemma pig_step_eq:
  assumes "creeperRef w = Some c" "pigRef w = Some t"
    "c < length (objects (myScene w))" "t < length (objects (myScene w))"
  shows "pig_step dt w =
     Some (w\<lparr>pigFleeDir := fst (flee_move dt t (pigFleeDir w) (objects (myScene w))),
             myScene := (myScene w)\<lparr>objects :=
               fst (explode c t (snd (flee_move dt t (pigFleeDir w) (objects (myScene w)))))\<rparr>,
             pigRef := fst (snd (explode c t (snd (flee_move dt t (pigFleeDir w) (objects (myScene w)))))),
             creeperRef := snd (snd (explode c t (snd (flee_move dt t (pigFleeDir w) (objects (myScene w))))))\<rparr>)"
  using assms by (simp add: pig_step_def split_beta)

section \<open>Facts about the concrete states\<close>

lemma length_tiles: "length tiles = 10201"
  unfolding tiles_def length_concat map_map comp_def length_map
  by (simp add: sum_list_triv del: upto.simps)

lemma grid_member:
  "obj \<in> set (concat (map (\<lambda>x. map (f x) zs) xs)) \<Longrightarrow> \<exists>x z. obj = f x z"
  by auto

lemma tiles_unnamed:
  assumes "obj \<in> set tiles"
  shows "name obj = ''''"
proof -
  have "\<exists>x z. obj = (\<lambda>(x::int) (z::int). rotate_obj (Vec3 (- pi / 2) 0 0)
             (move (Vec3 (of_int x * 1) (- 1.5) (of_int z * 1)) new_Object3D)) x z"
    using assms unfolding tiles_def by (rule grid_member)
  then obtain x z :: int where
    "obj = rotate_obj (Vec3 (- pi / 2) 0 0)
             (move (Vec3 (of_int x * 1) (- 1.5) (of_int z * 1)) new_Object3D)"
    by blast
  then show ?thesis
    by (simp add: rotate_obj_def move_def new_Object3D_def)
qed

lemma built_objects:
  "objects (myScene built) = tiles @ [steve0, pig0, new_Object3D, creeper0]"
  by (simp add: built_def minecraftScene_def texturingShader_def Let_def plain_models_def
      steve0_def pig0_def creeper0_def new_Object3D_def grow_def move_def setName_def
      setOrientation_def plus_vec3_def)

lemma built_refs:
  "creeperRef built = Some 10204" "steveRef built = Some 10201" "pigRef built = Some 10202"
  "steveFleeDir built = Vec3 (- 1) 0 0" "pigFleeDir built = Vec3 1 0 0"
  "sunTime built = 0" "ambientColor built = Vec3 1 1 1" "running built" "slept built = 0"
  "animators (myScene built) = []"
  by (simp_all add: built_def minecraftScene_def texturingShader_def Let_def length_tiles
      startup_def)



lemma relink_after_tiles:
  "relink 0 (tiles @ objs) r = relink 10201 objs r"
  using relink_append[of tiles 0 objs r] tiles_unnamed by (auto simp: length_tiles)




section \<open>What each step leaves as it is\<close>

lemma day_cycle_frame [simp]:
  "myScene (day_cycle dt w) = myScene w" "running (day_cycle dt w) = running w"
  "creeperRef (day_cycle dt w) = creeperRef w" "steveRef (day_cycle dt w) = steveRef w"
  "pigRef (day_cycle dt w) = pigRef w" "sunRef (day_cycle dt w) = sunRef w"
  "steveFleeDir (day_cycle dt w) = steveFleeDir w" "pigFleeDir (day_cycle dt w) = pigFleeDir w"
  "slept (day_cycle dt w) = slept w"
  by (simp_all add: day_cycle_def Let_def)

lemma sun_step_frame [simp]:
  "myScene (sun_step w) = myScene w" "running (sun_step w) = running w"
  "creeperRef (sun_step w) = creeperRef w" "steveRef (sun_step w) = steveRef w"
  "pigRef (sun_step w) = pigRef w"
  "steveFleeDir (sun_step w) = steveFleeDir w" "pigFleeDir (sun_step w) = pigFleeDir w"
  "slept (sun_step w) = slept w" "sunTime (sun_step w) = sunTime w"
  "ambientColor (sun_step w) = ambientColor w"
  by (simp_all add: sun_step_def Let_def split: option.split)

lemma camera_keys_frame [simp]:
  "myScene (camera_keys inp dt w) = myScene w" "running (camera_keys inp dt w) = running w"
  "creeperRef (camera_keys inp dt w) = creeperRef w" "steveRef (camera_keys inp dt w) = steveRef w"
  "pigRef (camera_keys inp dt w) = pigRef w" "sunRef (camera_keys inp dt w) = sunRef w"
  "steveFleeDir (camera_keys inp dt w) = steveFleeDir w"
  "pigFleeDir (camera_keys inp dt w) = pigFleeDir w"
  "slept (camera_keys inp dt w) = slept w" "sunTime (camera_keys inp dt w) = sunTime w"
  "ambientColor (camera_keys inp dt w) = ambientColor w"
  by (simp_all add: camera_keys_def Let_def)

lemma walk_frame [simp]:
  "running (walk c h dt w) = running w"
  "creeperRef (walk c h dt w) = creeperRef w" "steveRef (walk c h dt w) = steveRef w"
  "pigRef (walk c h dt w) = pigRef w" "sunRef (walk c h dt w) = sunRef w"
  "steveFleeDir (walk c h dt w) = steveFleeDir w" "pigFleeDir (walk c h dt w) = pigFleeDir w"
  "slept (walk c h dt w) = slept w" "sunTime (walk c h dt w) = sunTime w"
  "ambientColor (walk c h dt w) = ambientColor w"
  "cameraFront (walk c h dt w) = cameraFront w" "cameraUp (walk c h dt w) = cameraUp w"
  "animators (myScene (walk c h dt w)) = animators (myScene w)"
  "program (myScene (walk c h dt w)) = program (myScene w)"
  "length (objects (myScene (walk c h dt w))) = length (objects (myScene w))"
  by (simp_all add: walk_def Let_def)

lemma walk_names [simp]:
  "name (objects (myScene (walk c h dt w)) ! j) = name (objects (myScene w) ! j)"
  by (cases "j = c"; cases "c < length (objects (myScene w))")
     (simp_all add: walk_def Let_def move_def setOrientation_def list_update_beyond)

lemma walk_others:
  "j \<noteq> c \<Longrightarrow> objects (myScene (walk c h dt w)) ! j = objects (myScene w) ! j"
  by (simp add: walk_def Let_def)

lemma creeper_step_frame:
  assumes "creeper_step inp dt w = Some w'"
  shows "running w' = running w" "creeperRef w' = creeperRef w" "steveRef w' = steveRef w"
    "pigRef w' = pigRef w" "sunRef w' = sunRef w" "steveFleeDir w' = steveFleeDir w"
    "pigFleeDir w' = pigFleeDir w" "slept w' = slept w" "sunTime w' = sunTime w"
    "ambientColor w' = ambientColor w"
    "animators (myScene w') = animators (myScene w)"
    "length (objects (myScene w')) = length (objects (myScene w))"
    "name (objects (myScene w') ! j) = name (objects (myScene w) ! j)"
  using assms
  by (auto simp: creeper_step_def Let_def split: option.splits if_splits)

lemma creeper_step_others:
  assumes "creeper_step inp dt w = Some w'" and "creeperRef w \<noteq> Some j"
  shows "objects (myScene w') ! j = objects (myScene w) ! j"
  using assms
  by (auto simp: creeper_step_def Let_def walk_others split: option.splits if_splits)

lemma creeper_step_total:
  "creeperRef w = Some c \<Longrightarrow> c < length (objects (myScene w)) \<Longrightarrow>
   \<exists>w'. creeper_step inp dt w = Some w'"
  by (simp add: creeper_step_def Let_def)

lemma steve_step_frame:
  assumes "steve_step dt w = Some w'"
  shows "running w' = running w" "pigRef w' = pigRef w" "sunRef w' = sunRef w"
    "pigFleeDir w' = pigFleeDir w" "slept w' = slept w" "sunTime w' = sunTime w"
    "ambientColor w' = ambientColor w"
    "animators (myScene w') = animators (myScene w)"
  using assms
  by (auto simp: steve_step_def Let_def split_beta split: option.splits if_splits)

lemma pig_step_frame:
  assumes "pig_step dt w = Some w'"
  shows "running w' = running w" "steveRef w' = steveRef w" "sunRef w' = sunRef w"
    "steveFleeDir w' = steveFleeDir w" "slept w' = slept w" "sunTime w' = sunTime w"
    "ambientColor w' = ambientColor w"
    "animators (myScene w') = animators (myScene w)"
  using assms
  by (auto simp: pig_step_def Let_def split_beta split: option.splits if_splits)

lemma tick_cases:
  assumes "tick inp w = Some w'"
  obtains w2 w3 w4 anims objs where
    "creeper_step inp (diff inp)
       (camera_keys inp (diff inp) (sun_step (day_cycle (diff inp)
          (if closed_event inp then w\<lparr>running := False\<rparr> else w)))) = Some w2"
    "steve_step (diff inp) w2 = Some w3"
    "pig_step (diff inp) w3 = Some w4"
    "tick_animators (diff inp) (animators (myScene w4)) (objects (myScene w4)) = Some (anims, objs)"
    "w' = (if steveRef w4 = None \<and> pigRef w4 = None
           then w4\<lparr>myScene := (myScene w4)\<lparr>objects := objs, animators := anims\<rparr>,
                   slept := slept w4 + 3, running := False\<rparr>
           else w4\<lparr>myScene := (myScene w4)\<lparr>objects := objs, animators := anims\<rparr>\<rparr>)"
  using assms
  by (auto simp: tick_def Let_def split: option.splits prod.splits if_splits)

section \<open>Facts about start-up and the loop\<close>

lemma minecraftScene_failure:
  "minecraftScene (Runtime_error what) m w = Inl (''ERROR: '' @ what, 1)"
  by (simp add: minecraftScene_def texturingShader_def)

lemma minecraftScene_loaded:
  "\<exists>w'. minecraftScene (Loaded shader) m w = Inr w' \<and> program (myScene w') = shader \<and>
        animators (myScene w') = [] \<and> running w' = running w \<and> slept w' = slept w"
  by (simp add: minecraftScene_def texturingShader_def Let_def)

lemma main_prog_loaded:
  assumes "minecraftScene (Loaded shader) m startup = Inr w0"
  shows "main_prog (Loaded shader) m frames =
           (case frame_loop frames (w0\<lparr>running := True\<rparr>) of
              Finished w' \<Rightarrow> Exit 0 []
            | Pending w' \<Rightarrow> Still_running w'
            | Undefined \<Rightarrow> Undefined_behaviour)"
proof -
  from minecraftScene_loaded[of shader m startup] assms have "animators (myScene w0) = []"
    by auto
  then have "(myScene w0)\<lparr>animators := map (map start_animation) (animators (myScene w0))\<rparr> = myScene w0"
    by simp
  then show ?thesis
    using assms by (simp add: main_prog_def Let_def)
qed

lemma frame_loop_stopped: "\<not> running w \<Longrightarrow> frame_loop frames w = Finished w"
  by (cases frames) simp_all

lemma frame_loop_finished: "frame_loop frames w = Finished w' \<Longrightarrow> \<not> running w'"
  by (induction frames arbitrary: w) (auto split: if_splits option.splits)

lemma tick_slept_running:
  assumes "tick inp w = Some w'"
  shows "(steveRef w' = None \<and> pigRef w' = None \<longrightarrow> \<not> running w' \<and> slept w' = slept w + 3)
       \<and> (closed_event inp \<longrightarrow> \<not> running w')
       \<and> (\<not> (steveRef w' = None \<and> pigRef w' = None) \<longrightarrow> slept w' = slept w \<and>
            (running w' \<longleftrightarrow> running w \<and> \<not> closed_event inp))"
proof -
  from assms obtain w2 w3 w4 anims objs where
    c: "creeper_step inp (diff inp)
       (camera_keys inp (diff inp) (sun_step (day_cycle (diff inp)
          (if closed_event inp then w\<lparr>running := False\<rparr> else w)))) = Some w2"
    and s: "steve_step (diff inp) w2 = Some w3"
    and p: "pig_step (diff inp) w3 = Some w4"
    and w': "w' = (if steveRef w4 = None \<and> pigRef w4 = None
           then w4\<lparr>myScene := (myScene w4)\<lparr>objects := objs, animators := anims\<rparr>,
                   slept := slept w4 + 3, running := False\<rparr>
           else w4\<lparr>myScene := (myScene w4)\<lparr>objects := objs, animators := anims\<rparr>\<rparr>)"
    by (rule tick_cases)
  have sl: "slept w4 = slept w"
    using creeper_step_frame(8)[OF c] steve_step_frame(5)[OF s] pig_step_frame(5)[OF p]
    by (simp split: if_splits)
  have ru: "running w4 \<longleftrightarrow> running w \<and> \<not> closed_event inp"
    using creeper_step_frame(1)[OF c] steve_step_frame(1)[OF s] pig_step_frame(1)[OF p]
    by (simp split: if_splits)
  show ?thesis
    using w' sl ru by (auto split: if_splits)
qed

section \<open>The loop keeps the state well formed\<close>

lemma nth_erase:
  "t < length xs \<Longrightarrow> j + 1 < length xs \<Longrightarrow>
   (take t xs @ drop (Suc t) xs) ! j = (if j < t then xs ! j else xs ! Suc j)"
  by (simp add: nth_append min_def)

lemma relink_first:
  assumes "j < length objs" and "name (objs ! j) = ''Creeper''"
    and "\<forall>k < j. name (objs ! k) \<noteq> ''Creeper''"
  shows "relink i objs r = Some (i + j)"
proof -
  from assms(1,2) have "\<exists>j < length objs. name (objs ! j) = ''Creeper''" by blast
  from relink_finds[OF this, of i r] obtain j' where
    j': "j' < length objs" "relink i objs r = Some (i + j')" "name (objs ! j') = ''Creeper''"
      "\<forall>k < j'. name (objs ! k) \<noteq> ''Creeper''"
    by blast
  have "j' = j"
    using assms j' by (meson nat_neq_iff)
  with j' show ?thesis by simp
qed

lemma explode_wellformed:
  assumes n: "length objs = Suc m" and t: "t < m"
    and last: "name (objs ! m) = ''Creeper''"
    and others: "\<forall>j < m. name (objs ! j) \<noteq> ''Creeper''"
  shows "\<exists>objs' tref.
           explode m t objs = (objs', tref, Some (length objs' - 1)) \<and>
           (tref = Some t \<and> objs' = objs \<or> tref = None \<and> length objs' = m) \<and>
           0 < length objs' \<and>
           name (objs' ! (length objs' - 1)) = ''Creeper'' \<and>
           (\<forall>j < length objs' - 1. name (objs' ! j) \<noteq> ''Creeper'')"
proof (cases "glm_length (getPosition (objs ! m) - getPosition (objs ! t)) < 0.8")
  case False
  then show ?thesis
    using n last others by (auto simp: explode_def)
next
  case True
  define objs' where "objs' = take t objs @ drop (Suc t) objs"
  have len: "length objs' = m"
    using n t by (simp add: objs'_def)
  have nth: "objs' ! j = (if j < t then objs ! j else objs ! Suc j)" if "j < m" for j
    using that n t by (simp add: objs'_def nth_erase)
  from t obtain m' where m': "m = Suc m'" by (cases m) auto
  have l: "name (objs' ! m') = ''Creeper''"
    using nth[of m'] m' t last by simp
  have o: "\<forall>j < m'. name (objs' ! j) \<noteq> ''Creeper''"
    using nth m' others by simp
  have "relink 0 objs' (Some m) = Some (0 + m')"
    using l o len m' by (intro relink_first) simp_all
  then have "explode m t objs = (objs', None, Some (length objs' - 1))"
    using True n t len m' by (simp add: explode_def erase_slot objs'_def)
  with len l o m' show ?thesis
    by auto
qed

lemma flee_move_keeps_names:
  assumes "name (objs ! m) = ''Creeper''" and "\<forall>j < m. name (objs ! j) \<noteq> ''Creeper''"
  shows "name (snd (flee_move dt t d objs) ! m) = ''Creeper''"
    and "\<forall>j < m. name (snd (flee_move dt t d objs) ! j) \<noteq> ''Creeper''"
  using assms by simp_all

lemma steve_step_wellformed:
  assumes "wellformed w"
  shows "\<exists>w'. steve_step dt w = Some w' \<and> wellformed w'"
proof (cases "steveRef w")
  case None
  then have "steve_step dt w = Some w"
    by (simp add: steve_step_def split: option.splits)
  with assms show ?thesis by simp
next
  case (Some t)
  let ?objs = "objects (myScene w)"
  from assms obtain m where n: "length ?objs = Suc m"
    by (cases "length ?objs") (auto simp: wellformed_def Let_def)
  from assms n have c: "creeperRef w = Some m" and an: "animators (myScene w) = []"
    and last: "name (?objs ! m) = ''Creeper''"
    and others: "\<forall>j < m. name (?objs ! j) \<noteq> ''Creeper''"
    by (simp_all add: wellformed_def Let_def)
  from assms n Some have t: "t < m"
    by (auto simp: wellformed_def Let_def split: option.splits)
  let ?moved = "snd (flee_move dt t (steveFleeDir w) ?objs)"
  have "length ?moved = Suc m" using n by simp
  from explode_wellformed[OF this t flee_move_keeps_names[OF last others]]
  obtain objs' tref where
    e: "explode m t ?moved = (objs', tref, Some (length objs' - 1))"
    and k: "tref = Some t \<and> objs' = ?moved \<or> tref = None \<and> length objs' = m"
    and p: "0 < length objs'" "name (objs' ! (length objs' - 1)) = ''Creeper''"
      "\<forall>j < length objs' - 1. name (objs' ! j) \<noteq> ''Creeper''"
    by blast
  let ?w' = "w\<lparr>steveFleeDir := fst (flee_move dt t (steveFleeDir w) ?objs),
               myScene := (myScene w)\<lparr>objects := objs'\<rparr>,
               steveRef := tref, creeperRef := Some (length objs' - 1)\<rparr>"
  have s: "steve_step dt w = Some ?w'"
    using c Some n t e by (simp add: steve_step_eq)
  have "wellformed ?w'"
    using k assms n Some p an
    by (auto simp: wellformed_def Let_def split: option.splits)
  with s show ?thesis by blast
qed

lemma pig_step_wellformed:
  assumes "wellformed w"
  shows "\<exists>w'. pig_step dt w = Some w' \<and> wellformed w'"
proof (cases "pigRef w")
  case None
  then have "pig_step dt w = Some w"
    by (simp add: pig_step_def split: option.splits)
  with assms show ?thesis by simp
next
  case (Some t)
  let ?objs = "objects (myScene w)"
  from assms obtain m where n: "length ?objs = Suc m"
    by (cases "length ?objs") (auto simp: wellformed_def Let_def)
  from assms n have c: "creeperRef w = Some m" and an: "animators (myScene w) = []"
    and last: "name (?objs ! m) = ''Creeper''"
    and others: "\<forall>j < m. name (?objs ! j) \<noteq> ''Creeper''"
    by (simp_all add: wellformed_def Let_def)
  from assms n Some have t: "t < m"
    by (auto simp: wellformed_def Let_def split: option.splits)
  let ?moved = "snd (flee_move dt t (pigFleeDir w) ?objs)"
  have "length ?moved = Suc m" using n by simp
  from explode_wellformed[OF this t flee_move_keeps_names[OF last others]]
  obtain objs' tref where
    e: "explode m t ?moved = (objs', tref, Some (length objs' - 1))"
    and k: "tref = Some t \<and> objs' = ?moved \<or> tref = None \<and> length objs' = m"
    and p: "0 < length objs'" "name (objs' ! (length objs' - 1)) = ''Creeper''"
      "\<forall>j < length objs' - 1. name (objs' ! j) \<noteq> ''Creeper''"
    by blast
  let ?w' = "w\<lparr>pigFleeDir := fst (flee_move dt t (pigFleeDir w) ?objs),
               myScene := (myScene w)\<lparr>objects := objs'\<rparr>,
               pigRef := tref, creeperRef := Some (length objs' - 1)\<rparr>"
  have s: "pig_step dt w = Some ?w'"
    using c Some n t e by (simp add: pig_step_eq)
  have "wellformed ?w'"
    using k assms n Some p an
    by (auto simp: wellformed_def Let_def split: option.splits)
  with s show ?thesis by blast
qed

lemma creeper_step_wellformed:
  assumes "wellformed w"
  shows "\<exists>w'. creeper_step inp dt w = Some w' \<and> wellformed w'"
proof -
  from assms have "creeperRef w = Some (length (objects (myScene w)) - 1)"
    and "length (objects (myScene w)) - 1 < length (objects (myScene w))"
    by (simp_all add: wellformed_def Let_def)
  from creeper_step_total[OF this] obtain w' where w': "creeper_step inp dt w = Some w'"
    by blast
  have "\<forall>j. name (objects (myScene w') ! j) = name (objects (myScene w) ! j)"
    using creeper_step_frame(13)[OF w'] by simp
  then have "wellformed w'"
    using assms creeper_step_frame(2,3,4,11,12)[OF w']
    unfolding wellformed_def Let_def
    by (simp del: length_greater_0_conv split: option.splits)
  with w' show ?thesis by blast
qed

lemma wellformed_cong:
  assumes "wellformed w" and "myScene w' = myScene w" and "creeperRef w' = creeperRef w"
    and "steveRef w' = steveRef w" and "pigRef w' = pigRef w"
  shows "wellformed w'"
  using assms by (simp add: wellformed_def)

text \<open>A frame on a well-formed state never reads through a dangling reference, and
  leaves a well-formed state.\<close>

lemma tick_wellformed:
  assumes "wellformed w"
  shows "\<exists>w'. tick inp w = Some w' \<and> wellformed w'"
proof -
  let ?w1 = "camera_keys inp (diff inp) (sun_step (day_cycle (diff inp)
          (if closed_event inp then w\<lparr>running := False\<rparr> else w)))"
  have "wellformed ?w1"
    using assms by (rule wellformed_cong) simp_all
  from creeper_step_wellformed[OF this] obtain w2 where
    w2: "creeper_step inp (diff inp) ?w1 = Some w2" "wellformed w2" by blast
  from steve_step_wellformed[OF w2(2)] obtain w3 where
    w3: "steve_step (diff inp) w2 = Some w3" "wellformed w3" by blast
  from pig_step_wellformed[OF w3(2)] obtain w4 where
    w4: "pig_step (diff inp) w3 = Some w4" "wellformed w4" by blast
  from w4(2) have an: "animators (myScene w4) = []"
    by (simp add: wellformed_def Let_def)
  let ?w5 = "w4\<lparr>myScene := (myScene w4)\<lparr>objects := objects (myScene w4), animators := []\<rparr>\<rparr>"
  have w5: "wellformed ?w5"
    using w4(2) by (rule wellformed_cong) (simp_all add: an)
  have w6: "wellformed (?w5\<lparr>slept := slept ?w5 + 3, running := False\<rparr>)"
    using w5 by (rule wellformed_cong) simp_all
  have "tick inp w = Some (if steveRef ?w5 = None \<and> pigRef ?w5 = None
             then ?w5\<lparr>slept := slept ?w5 + 3, running := False\<rparr> else ?w5)"
    using w2(1) w3(1) w4(1) an by (simp add: tick_def Let_def)
  with w5 w6 show ?thesis by auto
qed

lemma frame_loop_defined:
  "wellformed w \<Longrightarrow> frame_loop frames w \<noteq> Undefined"
proof (induction frames arbitrary: w)
  case Nil
  then show ?case by simp
next
  case (Cons inp rest)
  from tick_wellformed[OF Cons.prems, of inp] obtain w' where
    "tick inp w = Some w'" "wellformed w'" by blast
  with Cons.IH[of w'] show ?case by simp
qed

lemma minecraftScene_wellformed:
  assumes "name (steveModel m) \<noteq> ''Creeper''" and "name (pigModel m) \<noteq> ''Creeper''"
    and "minecraftScene (Loaded shader) m startup = Inr w0"
  shows "wellformed (w0\<lparr>running := True\<rparr>)"
proof -
  have names: "j < 10201 \<Longrightarrow> name (tiles ! j) \<noteq> ''Creeper''" for j
    using tiles_unnamed[of "tiles ! j"] by (simp add: length_tiles)
  have "name ((tiles @ [a, b, s, c]) ! j) \<noteq> ''Creeper''"
    if "j < 10204" "name a \<noteq> ''Creeper''" "name b \<noteq> ''Creeper''" "name s \<noteq> ''Creeper''"
    for a b s c j
  proof -
    from that(1) consider "j < 10201" | "j = 10201" | "j = 10202" | "j = 10203"
      by fastforce
    then show ?thesis
      using that names by cases (simp_all add: nth_append length_tiles)
  qed
  with assms show ?thesis
    by (auto simp: minecraftScene_def texturingShader_def Let_def wellformed_def length_tiles
        nth_append grow_def move_def setName_def setOrientation_def new_Object3D_def)
qed

text \<open>Started from the scene as built, with models that are not themselves named
  Creeper, the program never runs into undefined behaviour.\<close>

lemma main_prog_defined:
  assumes "name (steveModel m) \<noteq> ''Creeper''" and "name (pigModel m) \<noteq> ''Creeper''"
  shows "main_prog r m frames \<noteq> Undefined_behaviour"
proof (cases r)
  case (Loaded shader)
  from minecraftScene_loaded[of shader m startup] obtain w0 where
    w0: "minecraftScene (Loaded shader) m startup = Inr w0" by blast
  from frame_loop_defined[OF minecraftScene_wellformed[OF assms w0], of frames]
    main_prog_loaded[OF w0, of frames] Loaded
  show ?thesis by (auto split: run.splits)
next
  case (Runtime_error what)
  then show ?thesis by (simp add: main_prog_def minecraftScene_failure)
qed

lemma built_wellformed: "wellformed built"
proof -
  from minecraftScene_loaded[of 1 plain_models startup] obtain w0 where
    w0: "minecraftScene (Loaded 1) plain_models startup = Inr w0" by blast
  have "wellformed (w0\<lparr>running := True\<rparr>)"
    by (rule minecraftScene_wellformed[OF _ _ w0]) (simp_all add: plain_models_def new_Object3D_def)
  with w0 show ?thesis by (simp add: built_def)
qed

section \<open>Facts about frames on the concrete states\<close>


text \<open>The last catch: only the second target reference is left, the object it addresses
  stands at the origin and so does the hunter.\<close>

lemma creeper_step_quiet:
  "creeper_step (quiet dt) dt' w = Some w' \<Longrightarrow> myScene w' = myScene w"
  by (auto simp: creeper_step_def quiet_def Let_def split: option.splits if_splits)

lemma last_catch:
  assumes "objects (myScene w) = tiles @ [pig0, new_Object3D, creeper0\<lparr>position := Vec3 0 0 0\<rparr>]"
    and "creeperRef w = Some 10203" and "pigRef w = Some 10202" and "pigFleeDir w = Vec3 1 0 0"
  shows "\<exists>w'. pig_step (1/10) w = Some w' \<and> pigRef w' = None \<and>
            objects (myScene w') = tiles @ [pig0, creeper0\<lparr>position := Vec3 0 0 0\<rparr>]"
proof -
  let ?objs = "tiles @ [pig0, new_Object3D, creeper0\<lparr>position := Vec3 0 0 0\<rparr>]"
  have dir: "fst (flee_move (1/10) 10202 (Vec3 1 0 0) ?objs) = Vec3 1 0 0"
    by (simp add: flee_move_dir nth_append length_tiles new_Object3D_def bounce_def
        plus_vec3_def vmul_def mapMinX_def mapMaxX_def mapMinZ_def mapMaxZ_def)
  have moved: "snd (flee_move (1/10) 10202 (Vec3 1 0 0) ?objs) =
      tiles @ [pig0, new_Object3D\<lparr>position := Vec3 (1/10) 0 0, orientation := Vec3 0 (pi / 2) 0\<rparr>,
               creeper0\<lparr>position := Vec3 0 0 0\<rparr>]"
    by (simp add: flee_move_objs dir)
       (simp add: nth_append length_tiles list_update_append new_Object3D_def
        plus_vec3_def vmul_def atan2_def)
  have "glm_length (Vec3 (- (1/10)) 0 0) < 0.8"
    by (subst glm_length_less) (simp_all add: dot_def power2_eq_square)
  then have near: "glm_length (getPosition (snd (flee_move (1/10) 10202 (Vec3 1 0 0) ?objs) ! 10203) -
        getPosition (snd (flee_move (1/10) 10202 (Vec3 1 0 0) ?objs) ! 10202)) < 0.8"
    by (simp add: moved nth_append length_tiles getPosition_def minus_vec3_def)
  have erased: "erase_remove_if (\<lambda>addr obj. addr = 10202)
        (snd (flee_move (1/10) 10202 (Vec3 1 0 0) ?objs)) =
      tiles @ [pig0, creeper0\<lparr>position := Vec3 0 0 0\<rparr>]"
    by (subst erase_slot) (simp_all add: moved length_tiles)
  have ex: "fst (explode 10203 10202 (snd (flee_move (1/10) 10202 (Vec3 1 0 0) ?objs))) =
        tiles @ [pig0, creeper0\<lparr>position := Vec3 0 0 0\<rparr>]"
      "fst (snd (explode 10203 10202 (snd (flee_move (1/10) 10202 (Vec3 1 0 0) ?objs)))) = None"
    using near by (simp_all add: explode_def erased Let_def)
  have l: "10203 < length (objects (myScene w))" "10202 < length (objects (myScene w))"
    by (simp_all add: assms(1) length_tiles)
  show ?thesis
    using ex by (simp add: pig_step_eq[OF assms(2,3) l] assms(1,4))
qed

lemma pig_left_facts:
  "objects (myScene (pig_left p)) = tiles @ [pig0, new_Object3D, creeper0\<lparr>position := p\<rparr>]"
  "creeperRef (pig_left p) = Some 10203" "pigRef (pig_left p) = Some 10202"
  "steveRef (pig_left p) = None" "pigFleeDir (pig_left p) = Vec3 1 0 0"
  "running (pig_left p)" "slept (pig_left p) = 0" "animators (myScene (pig_left p)) = []"
  by (simp_all add: pig_left_def built_refs)

lemma scene_names:
  assumes "j < 10201 + length rest" and "\<forall>obj \<in> set rest. name obj \<noteq> ''Creeper''"
  shows "name ((tiles @ rest) ! j) \<noteq> ''Creeper''"
proof (cases "j < 10201")
  case True
  then show ?thesis
    using tiles_unnamed[of "tiles ! j"] by (simp add: nth_append length_tiles)
next
  case False
  with assms(1) have "rest ! (j - 10201) \<in> set rest" by simp
  with assms(2) False show ?thesis
    by (simp add: nth_append length_tiles)
qed

lemma pig_left_wellformed: "wellformed (pig_left p)"
proof -
  have split: "tiles @ [pig0, new_Object3D, creeper0\<lparr>position := p\<rparr>] =
      (tiles @ [pig0, new_Object3D]) @ [creeper0\<lparr>position := p\<rparr>]"
    by simp
  have "name ((tiles @ [pig0, new_Object3D, creeper0\<lparr>position := p\<rparr>]) ! j) \<noteq> ''Creeper''"
    if "j < 10203" for j
  proof -
    have "((tiles @ [pig0, new_Object3D]) @ [creeper0\<lparr>position := p\<rparr>]) ! j =
        (tiles @ [pig0, new_Object3D]) ! j"
      using that by (subst nth_append) (simp add: length_tiles)
    moreover have "name ((tiles @ [pig0, new_Object3D]) ! j) \<noteq> ''Creeper''"
      using that by (intro scene_names) (simp_all add: pig0_def new_Object3D_def)
    ultimately show ?thesis
      unfolding split by simp
  qed
  then show ?thesis
    by (simp add: wellformed_def Let_def pig_left_facts length_tiles nth_append creeper0_def)
qed

lemma tick_last_catch:
  "\<exists>w'. tick (quiet (1/10)) (pig_left (Vec3 0 0 0)) = Some w' \<and>
        steveRef w' = None \<and> pigRef w' = None"
proof -
  let ?W = "pig_left (Vec3 0 0 0)"
  have wf: "wellformed ?W"
    by (rule pig_left_wellformed)
  from tick_wellformed[OF wf, of "quiet (1/10)"] obtain w' where
    w': "tick (quiet (1/10)) ?W = Some w'" by blast
  have q: "diff (quiet (1/10)) = 1/10" "\<not> closed_event (quiet (1/10))"
    by (simp_all add: quiet_def)
  from w' obtain w2 w3 w4 anims objs where
    c: "creeper_step (quiet (1/10)) (1/10)
       (camera_keys (quiet (1/10)) (1/10) (sun_step (day_cycle (1/10) ?W))) = Some w2"
    and s: "steve_step (1/10) w2 = Some w3"
    and p: "pig_step (1/10) w3 = Some w4"
    and e: "w' = (if steveRef w4 = None \<and> pigRef w4 = None
           then w4\<lparr>myScene := (myScene w4)\<lparr>objects := objs, animators := anims\<rparr>,
                   slept := slept w4 + 3, running := False\<rparr>
           else w4\<lparr>myScene := (myScene w4)\<lparr>objects := objs, animators := anims\<rparr>\<rparr>)"
    by (rule tick_cases) (simp_all add: q)
  have w2: "myScene w2 = myScene ?W" "creeperRef w2 = Some 10203" "pigRef w2 = Some 10202"
    "steveRef w2 = None" "pigFleeDir w2 = Vec3 1 0 0"
    using creeper_step_quiet[OF c] creeper_step_frame(2,3,4,7)[OF c]
    by (simp_all add: pig_left_facts)
  from s w2(4) have "w3 = w2"
    by (simp add: steve_step_def split: option.splits)
  with w2 have w3: "objects (myScene w3) = tiles @ [pig0, new_Object3D, creeper0\<lparr>position := Vec3 0 0 0\<rparr>]"
    "creeperRef w3 = Some 10203" "pigRef w3 = Some 10202" "pigFleeDir w3 = Vec3 1 0 0"
    "steveRef w3 = None"
    by (simp_all add: pig_left_facts)
  from last_catch[OF w3(1-4)] p have "pigRef w4 = None"
    by auto
  moreover have "steveRef w4 = None"
    using pig_step_frame(2)[OF p] w3(5) by simp
  ultimately show ?thesis
    using w' e by auto
qed

section \<open>What each step leaves of the camera\<close>

lemma day_cycle_camera [simp]:
  "cameraFront (day_cycle dt w) = cameraFront w" "cameraUp (day_cycle dt w) = cameraUp w"
  "yaw (day_cycle dt w) = yaw w" "pitch (day_cycle dt w) = pitch w"
  by (simp_all add: day_cycle_def Let_def)

lemma sun_step_camera [simp]:
  "cameraFront (sun_step w) = cameraFront w" "cameraUp (sun_step w) = cameraUp w"
  "yaw (sun_step w) = yaw w" "pitch (sun_step w) = pitch w"
  by (simp_all add: sun_step_def Let_def split: option.split)

lemma camera_keys_camera [simp]:
  "cameraFront (camera_keys inp dt w) = cameraFront w"
  "cameraUp (camera_keys inp dt w) = cameraUp w"
  by (simp_all add: camera_keys_def Let_def)

lemma camera_keys_turn:
  "\<not> keyW inp \<Longrightarrow> \<not> keyS inp \<Longrightarrow> pitch (camera_keys inp dt w) = pitch w"
  "\<not> keyA inp \<Longrightarrow> \<not> keyD inp \<Longrightarrow> yaw (camera_keys inp dt w) = yaw w"
  "keyA inp \<Longrightarrow> \<not> keyD inp \<Longrightarrow> yaw (camera_keys inp dt w) = yaw w - sensitivity * dt"
  by (simp_all add: camera_keys_def Let_def)

lemma steve_step_camera:
  assumes "steve_step dt w = Some w'"
  shows "cameraFront w' = cameraFront w" "cameraUp w' = cameraUp w" "yaw w' = yaw w"
    "pitch w' = pitch w"
  using assms
  by (auto simp: steve_step_def Let_def split_beta split: option.splits if_splits)

lemma pig_step_camera:
  assumes "pig_step dt w = Some w'"
  shows "cameraFront w' = cameraFront w" "cameraUp w' = cameraUp w" "yaw w' = yaw w"
    "pitch w' = pitch w"
  using assms
  by (auto simp: pig_step_def Let_def split_beta split: option.splits if_splits)

lemma walk_camera [simp]:
  "yaw (walk c h dt w) = yaw w" "pitch (walk c h dt w) = pitch w"
  by (simp_all add: walk_def Let_def)

lemma creeper_step_camera:
  assumes "creeper_step inp dt w = Some w'"
  shows "cameraUp w' = cameraUp w" "yaw w' = yaw w" "pitch w' = pitch w"
    "cameraFront w' = (if creeperRef w = None then cameraFront w
                       else normalize_vec (Vec3 (cos (yaw w) * cos (pitch w)) (sin (pitch w))
                                                (sin (yaw w) * cos (pitch w))))"
  using assms
  by (auto simp: creeper_step_def Let_def split: option.splits if_splits)

lemma normalize_axis:
  "x \<noteq> 0 \<Longrightarrow> normalize_vec (Vec3 x 0 0) = Vec3 (sgn x) 0 0"
  "z \<noteq> 0 \<Longrightarrow> normalize_vec (Vec3 0 0 z) = Vec3 0 0 (sgn z)"
  by (simp_all add: normalize_vec_def vmul_def dot_def sgn_real_def real_sqrt_mult_self
      flip: power2_eq_square)

text \<open>A frame in which no \<open>Closed\<close> event is polled and a target reference is left is
  the sequence of its steps.\<close>

lemma tick_steps:
  assumes "\<not> closed_event inp"
    and "creeper_step inp (diff inp)
           (camera_keys inp (diff inp) (sun_step (day_cycle (diff inp) w))) = Some w2"
    and "steve_step (diff inp) w2 = Some w3"
    and "pig_step (diff inp) w3 = Some w4"
    and "animators (myScene w4) = []"
    and "pigRef w4 = Some t"
  shows "tick inp w = Some w4"
  using assms by (simp add: tick_def Let_def)

section \<open>A run in which the first target is caught first\<close>

text \<open>When the loop starts the camera looks from \<open>(0, 1, 5)\<close> to the origin: the Down
  arrow moves the hunter along \<open>+z\<close>, and the Left arrow along \<open>-x\<close>.\<close>

lemma camera0: "cameraFront built = Vec3 0 (- (1 / sqrt 26)) (- (5 / sqrt 26))"
  by (simp add: built_def minecraftScene_def texturingShader_def Let_def startup_def
      normalize_vec_def minus_vec3_def vmul_def dot_def)

lemma built_camera:
  "cameraUp built = Vec3 0 1 0" "yaw built = - 90" "pitch built = 0"
  by (simp_all add: built_def minecraftScene_def texturingShader_def Let_def startup_def)

lemma dirs0:
  "normalize_vec (Vec3 (- vx (cameraFront built)) 0 (- vz (cameraFront built))) = Vec3 0 0 1"
  "normalize_vec (Vec3 (vx (normalize_vec (cross (Vec3 0 1 0) (cameraFront built)))) 0
                       (vz (normalize_vec (cross (Vec3 0 1 0) (cameraFront built))))) =
   Vec3 (- 1) 0 0"
  by (simp_all add: camera0 cross_def normalize_axis)

lemma frame1_creeper:
  "\<exists>w2. creeper_step ((quiet 3)\<lparr>keyDown := True, keyLeft := True\<rparr>) 3
          (camera_keys ((quiet 3)\<lparr>keyDown := True, keyLeft := True\<rparr>) 3
             (sun_step (day_cycle 3 built))) = Some w2 \<and>
        objects (myScene w2) =
          tiles @ [steve0, pig0, new_Object3D,
                   creeper0\<lparr>position := Vec3 (- 6) 0 6, orientation := Vec3 0 (- (pi / 2)) 0\<rparr>]"
  by (simp add: creeper_step_def Let_def built_refs built_objects length_tiles quiet_def
      walk_def dirs0 built_camera nth_append list_update_append move_def setOrientation_def
      vmul_def plus_vec3_def atan2_def creeper0_def)

text \<open>The step of a target that stays away from the hunter, and the step of the first
  target when the hunter is near.\<close>

lemma explode_far:
  assumes "\<not> glm_length (position (objs ! c) - position (objs ! t)) < 0.8"
  shows "explode c t objs = (objs, Some t, Some c)"
  using assms by (simp add: explode_def getPosition_def)

lemma explode_near:
  assumes "glm_length (position (objs ! c) - position (objs ! t)) < 0.8" and "t < length objs"
  shows "explode c t objs =
           (take t objs @ drop (Suc t) objs, None,
            relink 0 (take t objs @ drop (Suc t) objs) (Some c))"
  using assms by (simp add: explode_def getPosition_def erase_slot Let_def)

lemma pig_step_far:
  assumes "creeperRef w = Some c" and "pigRef w = Some t" and "objects (myScene w) = objs"
    and "c < length objs" and "t < length objs" and "c \<noteq> t"
    and "bounce (position (objs ! t) + vmul (pigFleeDir w) (1 * dt)) (pigFleeDir w) = d"
    and "moved = (objs ! t)\<lparr>position := position (objs ! t) + vmul d (1 * dt),
                              orientation := Vec3 0 (atan2 (vx d) (vz d)) 0\<rparr>"
    and "\<not> glm_length (position (objs ! c) - position moved) < 0.8"
  shows "\<exists>w'. pig_step dt w = Some w' \<and> objects (myScene w') = objs[t := moved] \<and>
           pigRef w' = Some t \<and> creeperRef w' = Some c \<and> pigFleeDir w' = d"
proof -
  have d: "fst (flee_move dt t (pigFleeDir w) objs) = d"
    using assms(7) by (simp add: flee_move_dir)
  have m: "snd (flee_move dt t (pigFleeDir w) objs) = objs[t := moved]"
    by (simp add: flee_move_objs d assms(8))
  have "explode c t (objs[t := moved]) = (objs[t := moved], Some t, Some c)"
    using assms(4,5,6,9) by (intro explode_far) simp
  then show ?thesis
    using assms(1-5) by (simp add: pig_step_eq[where c = c and t = t] d m)
qed

lemma steve_step_far:
  assumes "creeperRef w = Some c" and "steveRef w = Some t" and "objects (myScene w) = objs"
    and "c < length objs" and "t < length objs" and "c \<noteq> t"
    and "bounce (position (objs ! t) + vmul (steveFleeDir w) (1 * dt)) (steveFleeDir w) = d"
    and "moved = (objs ! t)\<lparr>position := position (objs ! t) + vmul d (1 * dt),
                              orientation := Vec3 0 (atan2 (vx d) (vz d)) 0\<rparr>"
    and "\<not> glm_length (position (objs ! c) - position moved) < 0.8"
  shows "\<exists>w'. steve_step dt w = Some w' \<and> objects (myScene w') = objs[t := moved] \<and>
           steveRef w' = Some t \<and> creeperRef w' = Some c \<and> steveFleeDir w' = d"
proof -
  have d: "fst (flee_move dt t (steveFleeDir w) objs) = d"
    using assms(7) by (simp add: flee_move_dir)
  have m: "snd (flee_move dt t (steveFleeDir w) objs) = objs[t := moved]"
    by (simp add: flee_move_objs d assms(8))
  have "explode c t (objs[t := moved]) = (objs[t := moved], Some t, Some c)"
    using assms(4,5,6,9) by (intro explode_far) simp
  then show ?thesis
    using assms(1-5) by (simp add: steve_step_eq[where c = c and t = t] d m)
qed

lemma steve_step_near:
  assumes "creeperRef w = Some c" and "steveRef w = Some t" and "objects (myScene w) = objs"
    and "c < length objs" and "t < length objs" and "c \<noteq> t"
    and "bounce (position (objs ! t) + vmul (steveFleeDir w) (1 * dt)) (steveFleeDir w) = d"
    and "moved = (objs ! t)\<lparr>position := position (objs ! t) + vmul d (1 * dt),
                              orientation := Vec3 0 (atan2 (vx d) (vz d)) 0\<rparr>"
    and "glm_length (position (objs ! c) - position moved) < 0.8"
  shows "\<exists>w'. steve_step dt w = Some w' \<and>
           objects (myScene w') = take t objs @ drop (Suc t) objs \<and>
           steveRef w' = None \<and>
           creeperRef w' = relink 0 (take t objs @ drop (Suc t) objs) (Some c) \<and>
           steveFleeDir w' = d"
proof -
  have d: "fst (flee_move dt t (steveFleeDir w) objs) = d"
    using assms(7) by (simp add: flee_move_dir)
  have m: "snd (flee_move dt t (steveFleeDir w) objs) = objs[t := moved]"
    by (simp add: flee_move_objs d assms(8))
  have "explode c t (objs[t := moved]) =
      (take t (objs[t := moved]) @ drop (Suc t) (objs[t := moved]), None,
       relink 0 (take t (objs[t := moved]) @ drop (Suc t) (objs[t := moved])) (Some c))"
    using assms(4,5,6,9) by (intro explode_near) simp_all
  then show ?thesis
    using assms(1-5) by (simp add: steve_step_eq[where c = c and t = t] d m)
qed

text \<open>The first frame of \<open>first_catch\<close>: the hunter walks to \<open>(-6, 0, 6)\<close>, and both
  targets move three units.\<close>

lemma frame1:
  "\<exists>w'. tick ((quiet 3)\<lparr>keyDown := True, keyLeft := True\<rparr>) built = Some w' \<and>
     objects (myScene w') =
       tiles @ [steve0\<lparr>position := Vec3 (- 3) 0 6, orientation := Vec3 0 (- (pi / 2)) 0\<rparr>,
                pig0\<lparr>position := Vec3 3 0 (- 6), orientation := Vec3 0 (pi / 2) 0\<rparr>,
                new_Object3D,
                creeper0\<lparr>position := Vec3 (- 6) 0 6, orientation := Vec3 0 (- (pi / 2)) 0\<rparr>] \<and>
     animators (myScene w') = [] \<and>
     creeperRef w' = Some 10204 \<and> steveRef w' = Some 10201 \<and> pigRef w' = Some 10202 \<and>
     steveFleeDir w' = Vec3 (- 1) 0 0 \<and> pigFleeDir w' = Vec3 1 0 0 \<and>
     cameraUp w' = Vec3 0 1 0 \<and> yaw w' = - 90 \<and> pitch w' = 0 \<and> running w'"
proof -
  let ?f = "(quiet 3)\<lparr>keyDown := True, keyLeft := True\<rparr>"
  let ?w1 = "camera_keys ?f 3 (sun_step (day_cycle 3 built))"
  let ?hunter = "creeper0\<lparr>position := Vec3 (- 6) 0 6, orientation := Vec3 0 (- (pi / 2)) 0\<rparr>"
  let ?steve = "steve0\<lparr>position := Vec3 (- 3) 0 6, orientation := Vec3 0 (- (pi / 2)) 0\<rparr>"
  let ?pig = "pig0\<lparr>position := Vec3 3 0 (- 6), orientation := Vec3 0 (pi / 2) 0\<rparr>"
  have q: "\<not> closed_event ?f" "diff ?f = 3" "\<not> keyW ?f" "\<not> keyS ?f" "\<not> keyA ?f" "\<not> keyD ?f"
    by (simp_all add: quiet_def)
  from frame1_creeper obtain w2 where
    c: "creeper_step ?f 3 ?w1 = Some w2" and
    o2: "objects (myScene w2) = tiles @ [steve0, pig0, new_Object3D, ?hunter]"
    by blast
  have w2: "creeperRef w2 = Some 10204" "steveRef w2 = Some 10201" "pigRef w2 = Some 10202"
    "steveFleeDir w2 = Vec3 (- 1) 0 0" "pigFleeDir w2 = Vec3 1 0 0" "running w2"
    "animators (myScene w2) = []" "cameraUp w2 = Vec3 0 1 0" "yaw w2 = - 90" "pitch w2 = 0"
    using creeper_step_frame[OF c] creeper_step_camera(1-3)[OF c] q(3-6)
    by (simp_all add: built_refs built_camera camera_keys_turn)
  have far_s: "\<not> glm_length (Vec3 (- 3) 0 0) < 0.8"
    by (subst glm_length_less) (simp_all add: dot_def power2_eq_square)
  have "\<exists>w3. steve_step 3 w2 = Some w3 \<and>
          objects (myScene w3) = (tiles @ [steve0, pig0, new_Object3D, ?hunter])[10201 := ?steve] \<and>
          steveRef w3 = Some 10201 \<and> creeperRef w3 = Some 10204 \<and>
          steveFleeDir w3 = Vec3 (- 1) 0 0"
    using far_s
    by (intro steve_step_far[OF w2(1,2) o2])
       (simp_all add: w2 length_tiles nth_append steve0_def creeper0_def bounce_def plus_vec3_def
          minus_vec3_def vmul_def atan2_def mapMinX_def mapMaxX_def mapMinZ_def mapMaxZ_def)
  then obtain w3 where
    s: "steve_step 3 w2 = Some w3" and
    o3: "objects (myScene w3) = tiles @ [?steve, pig0, new_Object3D, ?hunter]" and
    r3: "steveRef w3 = Some 10201" "creeperRef w3 = Some 10204" "steveFleeDir w3 = Vec3 (- 1) 0 0"
    by (auto simp: list_update_append length_tiles)
  have w3: "pigRef w3 = Some 10202" "pigFleeDir w3 = Vec3 1 0 0" "running w3"
    "animators (myScene w3) = []" "cameraUp w3 = Vec3 0 1 0" "yaw w3 = - 90" "pitch w3 = 0"
    using steve_step_frame[OF s] steve_step_camera[OF s] by (simp_all add: w2)
  have far_p: "\<not> glm_length (Vec3 (- 9) 0 12) < 0.8"
    by (subst glm_length_less) (simp_all add: dot_def power2_eq_square)
  have "\<exists>w4. pig_step 3 w3 = Some w4 \<and>
          objects (myScene w4) = (tiles @ [?steve, pig0, new_Object3D, ?hunter])[10202 := ?pig] \<and>
          pigRef w4 = Some 10202 \<and> creeperRef w4 = Some 10204 \<and> pigFleeDir w4 = Vec3 1 0 0"
    using far_p
    by (intro pig_step_far[OF r3(2) w3(1) o3])
       (simp_all add: w3 length_tiles nth_append pig0_def creeper0_def bounce_def plus_vec3_def
          minus_vec3_def vmul_def atan2_def mapMinX_def mapMaxX_def mapMinZ_def mapMaxZ_def)
  then obtain w4 where
    p: "pig_step 3 w3 = Some w4" and
    o4: "objects (myScene w4) = tiles @ [?steve, ?pig, new_Object3D, ?hunter]" and
    r4: "pigRef w4 = Some 10202" "creeperRef w4 = Some 10204" "pigFleeDir w4 = Vec3 1 0 0"
    by (auto simp: list_update_append length_tiles)
  have w4: "steveRef w4 = Some 10201" "steveFleeDir w4 = Vec3 (- 1) 0 0" "running w4"
    "animators (myScene w4) = []" "cameraUp w4 = Vec3 0 1 0" "yaw w4 = - 90" "pitch w4 = 0"
    using pig_step_frame[OF p] pig_step_camera[OF p] by (simp_all add: w3 r3)
  have "tick ?f built = Some w4"
    using c s p w4(4) r4(1) q(1,2) by (intro tick_steps[where ?w2.0 = w2 and ?w3.0 = w3]) simp_all
  then show ?thesis
    using o4 r4 w4 by simp
qed

text \<open>The second frame: the first target walks into the hunter and is erased. The step of
  the second target follows in the same frame, with the reference of the second target
  still at slot 10202, where the sky object now is.\<close>

lemma creeper_step_still:
  assumes "creeper_step inp dt w = Some w'"
    and "\<not> keyUp inp" "\<not> keyDown inp" "\<not> keyLeft inp" "\<not> keyRight inp"
  shows "myScene w' = myScene w"
  using assms by (auto simp: creeper_step_def Let_def split: option.splits if_splits)

lemma frame2:
  assumes "objects (myScene w) =
       tiles @ [steve0\<lparr>position := Vec3 (- 3) 0 6, orientation := Vec3 0 (- (pi / 2)) 0\<rparr>,
                pig0\<lparr>position := Vec3 3 0 (- 6), orientation := Vec3 0 (pi / 2) 0\<rparr>,
                new_Object3D,
                creeper0\<lparr>position := Vec3 (- 6) 0 6, orientation := Vec3 0 (- (pi / 2)) 0\<rparr>]"
    and "animators (myScene w) = []"
    and "creeperRef w = Some 10204" and "steveRef w = Some 10201" and "pigRef w = Some 10202"
    and "steveFleeDir w = Vec3 (- 1) 0 0" and "pigFleeDir w = Vec3 1 0 0"
    and "cameraUp w = Vec3 0 1 0" and "yaw w = - 90" and "pitch w = 0" and "running w"
  shows "\<exists>w'. tick (quiet 3) w = Some w' \<and>
     objects (myScene w') =
       tiles @ [pig0\<lparr>position := Vec3 3 0 (- 6), orientation := Vec3 0 (pi / 2) 0\<rparr>,
                new_Object3D\<lparr>position := Vec3 3 0 0, orientation := Vec3 0 (pi / 2) 0\<rparr>,
                creeper0\<lparr>position := Vec3 (- 6) 0 6, orientation := Vec3 0 (- (pi / 2)) 0\<rparr>] \<and>
     animators (myScene w') = [] \<and>
     creeperRef w' = Some 10203 \<and> steveRef w' = None \<and> pigRef w' = Some 10202 \<and>
     pigFleeDir w' = Vec3 1 0 0 \<and>
     cameraUp w' = Vec3 0 1 0 \<and> yaw w' = - 90 \<and> pitch w' = 0 \<and> running w'"
proof -
  let ?f = "quiet 3"
  let ?w1 = "camera_keys ?f 3 (sun_step (day_cycle 3 w))"
  let ?hunter = "creeper0\<lparr>position := Vec3 (- 6) 0 6, orientation := Vec3 0 (- (pi / 2)) 0\<rparr>"
  let ?steve = "steve0\<lparr>position := Vec3 (- 3) 0 6, orientation := Vec3 0 (- (pi / 2)) 0\<rparr>"
  let ?pig = "pig0\<lparr>position := Vec3 3 0 (- 6), orientation := Vec3 0 (pi / 2) 0\<rparr>"
  let ?sky = "new_Object3D\<lparr>position := Vec3 3 0 0, orientation := Vec3 0 (pi / 2) 0\<rparr>"
  have q: "\<not> closed_event ?f" "diff ?f = 3" "\<not> keyW ?f" "\<not> keyS ?f" "\<not> keyA ?f" "\<not> keyD ?f"
    "\<not> keyUp ?f" "\<not> keyDown ?f" "\<not> keyLeft ?f" "\<not> keyRight ?f"
    by (simp_all add: quiet_def)
  from creeper_step_total[of ?w1 10204 ?f 3] obtain w2 where
    c: "creeper_step ?f 3 ?w1 = Some w2"
    by (auto simp: assms length_tiles)
  have o2: "objects (myScene w2) = tiles @ [?steve, ?pig, new_Object3D, ?hunter]"
    using creeper_step_still[OF c q(7-10)] by (simp add: assms)
  have w2: "creeperRef w2 = Some 10204" "steveRef w2 = Some 10201" "pigRef w2 = Some 10202"
    "steveFleeDir w2 = Vec3 (- 1) 0 0" "pigFleeDir w2 = Vec3 1 0 0" "running w2"
    "animators (myScene w2) = []" "cameraUp w2 = Vec3 0 1 0" "yaw w2 = - 90" "pitch w2 = 0"
    using creeper_step_frame[OF c] creeper_step_camera(1-3)[OF c] q(3-6)
    by (simp_all add: assms camera_keys_turn)
  have near: "glm_length (Vec3 0 0 0) < 0.8"
    by (subst glm_length_less) (simp_all add: dot_def power2_eq_square)
  have "\<exists>w3. steve_step 3 w2 = Some w3 \<and>
          objects (myScene w3) =
            take 10201 (tiles @ [?steve, ?pig, new_Object3D, ?hunter]) @
            drop (Suc 10201) (tiles @ [?steve, ?pig, new_Object3D, ?hunter]) \<and>
          steveRef w3 = None \<and>
          creeperRef w3 = relink 0 (take 10201 (tiles @ [?steve, ?pig, new_Object3D, ?hunter]) @
            drop (Suc 10201) (tiles @ [?steve, ?pig, new_Object3D, ?hunter])) (Some 10204) \<and>
          steveFleeDir w3 = Vec3 (- 1) 0 0"
    using near
    by (intro steve_step_near[OF w2(1,2) o2, where d = "Vec3 (- 1) 0 0" and
          moved = "steve0\<lparr>position := Vec3 (- 6) 0 6, orientation := Vec3 0 (- (pi / 2)) 0\<rparr>"])
       (simp_all add: w2 length_tiles nth_append steve0_def creeper0_def bounce_def plus_vec3_def
          minus_vec3_def vmul_def atan2_def mapMinX_def mapMaxX_def mapMinZ_def mapMaxZ_def)
  then obtain w3 where
    s: "steve_step 3 w2 = Some w3" and
    o3: "objects (myScene w3) = tiles @ [?pig, new_Object3D, ?hunter]" and
    r3: "steveRef w3 = None" "creeperRef w3 = Some 10203"
    by (auto simp: length_tiles relink_after_tiles getName_def pig0_def new_Object3D_def
        creeper0_def)
  have w3: "pigRef w3 = Some 10202" "pigFleeDir w3 = Vec3 1 0 0" "running w3"
    "animators (myScene w3) = []" "cameraUp w3 = Vec3 0 1 0" "yaw w3 = - 90" "pitch w3 = 0"
    using steve_step_frame[OF s] steve_step_camera[OF s] by (simp_all add: w2)
  have far_p: "\<not> glm_length (Vec3 (- 9) 0 6) < 0.8"
    by (subst glm_length_less) (simp_all add: dot_def power2_eq_square)
  have "\<exists>w4. pig_step 3 w3 = Some w4 \<and>
          objects (myScene w4) = (tiles @ [?pig, new_Object3D, ?hunter])[10202 := ?sky] \<and>
          pigRef w4 = Some 10202 \<and> creeperRef w4 = Some 10203 \<and> pigFleeDir w4 = Vec3 1 0 0"
    using far_p
    by (intro pig_step_far[OF r3(2) w3(1) o3])
       (simp_all add: w3 length_tiles nth_append new_Object3D_def creeper0_def bounce_def
          plus_vec3_def minus_vec3_def vmul_def atan2_def mapMinX_def mapMaxX_def mapMinZ_def
          mapMaxZ_def)
  then obtain w4 where
    p: "pig_step 3 w3 = Some w4" and
    o4: "objects (myScene w4) = tiles @ [?pig, ?sky, ?hunter]" and
    r4: "pigRef w4 = Some 10202" "creeperRef w4 = Some 10203" "pigFleeDir w4 = Vec3 1 0 0"
    by (auto simp: list_update_append length_tiles)
  have w4: "steveRef w4 = None" "running w4"
    "animators (myScene w4) = []" "cameraUp w4 = Vec3 0 1 0" "yaw w4 = - 90" "pitch w4 = 0"
    using pig_step_frame[OF p] pig_step_camera[OF p] by (simp_all add: w3 r3)
  have "tick ?f w = Some w4"
    using c s p w4(3) r4(1) q(1,2) by (intro tick_steps[where ?w2.0 = w2 and ?w3.0 = w3]) simp_all
  then show ?thesis
    using o4 r4 w4 by simp
qed

text \<open>The frames after the catch. The sky object moves along the line \<open>z = 0\<close>, and the
  hunter ends every frame at least 0.8 away from that line. Once the yaw is \<open>-31 \<pi>\<close>
  the camera looks along \<open>-x\<close>: the Down arrow moves the hunter along \<open>+x\<close>, and the
  Right arrow along \<open>-z\<close>.\<close>

lemma far_apart:
  assumes "4 / 5 \<le> \<bar>vz v\<bar>"
  shows "\<not> glm_length v < 0.8"
proof -
  have "(4 / 5) * (4 / 5) \<le> \<bar>vz v\<bar> * \<bar>vz v\<bar>"
    using assms by (intro mult_mono) simp_all
  then have z: "16 / 25 \<le> vz v * vz v"
    by simp
  have xy: "0 \<le> vx v * vx v" "0 \<le> vy v * vy v"
    by simp_all
  have "dot v v = vx v * vx v + vy v * vy v + vz v * vz v"
    by (simp add: dot_def)
  with z xy have "16 / 25 \<le> dot v v"
    by linarith
  then have "\<not> dot v v < (0.8)\<^sup>2"
    by (simp add: power2_eq_square)
  then show ?thesis
    by (subst glm_length_less) simp_all
qed

lemma pi_ge_three: "3 \<le> pi"
  using sin_x_le_x[of "pi / 6"] by (simp add: sin_30)

lemma turn_time: "0 < 31 - 90 / pi" "0 < 90 / pi" "90 / pi \<le> 45"
  using pi_ge_three pi_gt_zero by (simp_all add: field_simps)

lemma turn_yaw: "- 90 - sensitivity * (31 - 90 / pi) = - (31 * pi)"
  by (simp add: sensitivity_def radians_def field_simps)

lemma turned: "cos (- (31 * pi)) = - 1" "sin (- (31 * pi)) = 0"
  using cos_npi[of 31] sin_npi[of 31] by simp_all

lemma stale_frame:
  assumes "creeper_step inp (diff inp)
             (camera_keys inp (diff inp) (sun_step (day_cycle (diff inp) w))) = Some w2"
    and "\<not> closed_event inp"
    and "objects (myScene w2) = tiles @ [pig, sky, hunter]"
    and "animators (myScene w) = []"
    and "creeperRef w = Some 10203" and "steveRef w = None" and "pigRef w = Some 10202"
    and "pigFleeDir w = Vec3 1 0 0" and "running w"
    and "position sky = Vec3 x 0 0" and "- 50 \<le> x + diff inp" and "x + diff inp \<le> 50"
    and "4 / 5 \<le> \<bar>vz (position hunter)\<bar>"
  shows "\<exists>w'. tick inp w = Some w' \<and>
     objects (myScene w') =
       tiles @ [pig, sky\<lparr>position := Vec3 (x + diff inp) 0 0, orientation := Vec3 0 (pi / 2) 0\<rparr>,
                hunter] \<and>
     animators (myScene w') = [] \<and>
     creeperRef w' = Some 10203 \<and> steveRef w' = None \<and> pigRef w' = Some 10202 \<and>
     pigFleeDir w' = Vec3 1 0 0 \<and> running w' \<and>
     cameraFront w' = cameraFront w2 \<and> cameraUp w' = cameraUp w2 \<and>
     yaw w' = yaw w2 \<and> pitch w' = pitch w2"
proof -
  let ?dt = "diff inp"
  let ?sky = "sky\<lparr>position := Vec3 (x + ?dt) 0 0, orientation := Vec3 0 (pi / 2) 0\<rparr>"
  note c = assms(1)
  have w2: "creeperRef w2 = Some 10203" "steveRef w2 = None" "pigRef w2 = Some 10202"
    "pigFleeDir w2 = Vec3 1 0 0" "running w2" "animators (myScene w2) = []"
    using creeper_step_frame[OF c] by (simp_all add: assms)
  have s: "steve_step ?dt w2 = Some w2"
    by (simp add: steve_step_def w2 split: option.splits)
  have far: "\<not> glm_length (position hunter - Vec3 (x + ?dt) 0 0) < 0.8"
    using assms(13) by (intro far_apart) (simp add: minus_vec3_def)
  have "\<exists>w4. pig_step ?dt w2 = Some w4 \<and>
          objects (myScene w4) = (tiles @ [pig, sky, hunter])[10202 := ?sky] \<and>
          pigRef w4 = Some 10202 \<and> creeperRef w4 = Some 10203 \<and> pigFleeDir w4 = Vec3 1 0 0"
    using far assms(10-12)
    by (intro pig_step_far[OF w2(1) w2(3) assms(3), where d = "Vec3 1 0 0" and moved = ?sky])
       (simp_all add: w2 length_tiles nth_append bounce_def plus_vec3_def
          vmul_def atan2_def mapMinX_def mapMaxX_def mapMinZ_def mapMaxZ_def)
  then obtain w4 where
    p: "pig_step ?dt w2 = Some w4" and
    o4: "objects (myScene w4) = tiles @ [pig, ?sky, hunter]" and
    r4: "pigRef w4 = Some 10202" "creeperRef w4 = Some 10203" "pigFleeDir w4 = Vec3 1 0 0"
    by (auto simp: list_update_append length_tiles)
  have w4: "steveRef w4 = None" "running w4" "animators (myScene w4) = []"
    "cameraFront w4 = cameraFront w2" "cameraUp w4 = cameraUp w2" "yaw w4 = yaw w2"
    "pitch w4 = pitch w2"
    using pig_step_frame[OF p] pig_step_camera[OF p] by (simp_all add: w2)
  have "tick inp w = Some w4"
    using c s p w4(3) r4(1) assms(2)
    by (intro tick_steps[where ?w2.0 = w2 and ?w3.0 = w2]) simp_all
  then show ?thesis
    using o4 r4 w4 by simp
qed

lemma creeper_down:
  assumes "objects (myScene w) = tiles @ [pig, sky, hunter]" and "creeperRef w = Some 10203"
    and "cameraFront w = Vec3 (- 1) 0 0"
  shows "\<exists>w2. creeper_step ((quiet dt)\<lparr>keyDown := True\<rparr>) dt
               (camera_keys ((quiet dt)\<lparr>keyDown := True\<rparr>) dt (sun_step (day_cycle dt w))) =
             Some w2 \<and>
          objects (myScene w2) =
            tiles @ [pig, sky, hunter\<lparr>position := position hunter + Vec3 (2 * dt) 0 0,
                                      orientation := Vec3 0 (pi / 2) 0\<rparr>]"
  by (simp add: creeper_step_def Let_def assms length_tiles quiet_def walk_def normalize_axis
      nth_append list_update_append move_def setOrientation_def vmul_def plus_vec3_def atan2_def)

lemma creeper_right:
  assumes "objects (myScene w) = tiles @ [pig, sky, hunter]" and "creeperRef w = Some 10203"
    and "cameraFront w = Vec3 (- 1) 0 0" and "cameraUp w = Vec3 0 1 0"
  shows "\<exists>w2. creeper_step ((quiet dt)\<lparr>keyRight := True\<rparr>) dt
               (camera_keys ((quiet dt)\<lparr>keyRight := True\<rparr>) dt (sun_step (day_cycle dt w))) =
             Some w2 \<and>
          objects (myScene w2) =
            tiles @ [pig, sky, hunter\<lparr>position := position hunter + Vec3 0 0 (- (2 * dt)),
                                      orientation := Vec3 0 pi 0\<rparr>]"
  by (simp add: creeper_step_def Let_def assms length_tiles quiet_def walk_def normalize_axis
      cross_def nth_append list_update_append move_def setOrientation_def vmul_def plus_vec3_def
      atan2_def)

lemma creeper_none:
  assumes "objects (myScene w) = tiles @ [pig, sky, hunter]" and "creeperRef w = Some 10203"
    and "\<not> keyUp inp" "\<not> keyDown inp" "\<not> keyLeft inp" "\<not> keyRight inp"
  shows "\<exists>w2. creeper_step inp dt (camera_keys inp dt (sun_step (day_cycle dt w))) = Some w2 \<and>
          objects (myScene w2) = tiles @ [pig, sky, hunter]"
  by (simp add: creeper_step_def Let_def assms length_tiles)

lemma frame3:
  assumes "objects (myScene w) = tiles @ [pig, sky, hunter]" and "animators (myScene w) = []"
    and "creeperRef w = Some 10203" and "steveRef w = None" and "pigRef w = Some 10202"
    and "pigFleeDir w = Vec3 1 0 0" and "running w"
    and "cameraUp w = Vec3 0 1 0" and "yaw w = - 90" and "pitch w = 0"
    and "position sky = Vec3 3 0 0" and "4 / 5 \<le> \<bar>vz (position hunter)\<bar>"
  shows "\<exists>w'. tick ((quiet (31 - 90 / pi))\<lparr>keyA := True\<rparr>) w = Some w' \<and>
     objects (myScene w') =
       tiles @ [pig, sky\<lparr>position := Vec3 (34 - 90 / pi) 0 0, orientation := Vec3 0 (pi / 2) 0\<rparr>,
                hunter] \<and>
     animators (myScene w') = [] \<and>
     creeperRef w' = Some 10203 \<and> steveRef w' = None \<and> pigRef w' = Some 10202 \<and>
     pigFleeDir w' = Vec3 1 0 0 \<and> running w' \<and>
     cameraFront w' = Vec3 (- 1) 0 0 \<and> cameraUp w' = Vec3 0 1 0 \<and>
     yaw w' = - (31 * pi) \<and> pitch w' = 0"
proof -
  let ?f = "(quiet (31 - 90 / pi))\<lparr>keyA := True\<rparr>"
  have q: "\<not> closed_event ?f" "diff ?f = 31 - 90 / pi" "\<not> keyW ?f" "\<not> keyS ?f" "keyA ?f"
    "\<not> keyD ?f" "\<not> keyUp ?f" "\<not> keyDown ?f" "\<not> keyLeft ?f" "\<not> keyRight ?f"
    by (simp_all add: quiet_def)
  from creeper_none[OF assms(1,3) q(7-10), of "diff ?f"] obtain w2 where
    c: "creeper_step ?f (diff ?f)
          (camera_keys ?f (diff ?f) (sun_step (day_cycle (diff ?f) w))) = Some w2" and
    o2: "objects (myScene w2) = tiles @ [pig, sky, hunter]"
    by blast
  have cam: "cameraFront w2 = Vec3 (- 1) 0 0" "cameraUp w2 = Vec3 0 1 0"
    "yaw w2 = - (31 * pi)" "pitch w2 = 0"
    using creeper_step_camera[OF c] q(3-6) turn_yaw
    by (simp_all add: assms camera_keys_turn q(2) turned normalize_axis)
  have b: "- 50 \<le> 3 + diff ?f" "3 + diff ?f \<le> 50"
    unfolding q(2) using turn_time by linarith+
  from stale_frame[OF c q(1) o2 assms(2-7) assms(11) b assms(12)] show ?thesis
    by (simp add: cam q(2))
qed

lemma turned_frame:
  assumes "creeper_step inp (diff inp)
             (camera_keys inp (diff inp) (sun_step (day_cycle (diff inp) w))) = Some w2"
    and "objects (myScene w2) = tiles @ [pig, sky, hunter]"
    and "\<not> closed_event inp" "\<not> keyW inp" "\<not> keyS inp" "\<not> keyA inp" "\<not> keyD inp"
    and "animators (myScene w) = []"
    and "creeperRef w = Some 10203" and "steveRef w = None" and "pigRef w = Some 10202"
    and "pigFleeDir w = Vec3 1 0 0" and "running w"
    and "cameraUp w = Vec3 0 1 0" and "yaw w = - (31 * pi)" and "pitch w = 0"
    and "position sky = Vec3 x 0 0" and "- 50 \<le> x + diff inp" and "x + diff inp \<le> 50"
    and "4 / 5 \<le> \<bar>vz (position hunter)\<bar>"
  shows "\<exists>w'. tick inp w = Some w' \<and>
     objects (myScene w') =
       tiles @ [pig, sky\<lparr>position := Vec3 (x + diff inp) 0 0, orientation := Vec3 0 (pi / 2) 0\<rparr>,
                hunter] \<and>
     animators (myScene w') = [] \<and>
     creeperRef w' = Some 10203 \<and> steveRef w' = None \<and> pigRef w' = Some 10202 \<and>
     pigFleeDir w' = Vec3 1 0 0 \<and> running w' \<and>
     cameraFront w' = Vec3 (- 1) 0 0 \<and> cameraUp w' = Vec3 0 1 0 \<and>
     yaw w' = - (31 * pi) \<and> pitch w' = 0"
proof -
  note c = assms(1)
  have cam: "cameraFront w2 = Vec3 (- 1) 0 0" "cameraUp w2 = Vec3 0 1 0"
    "yaw w2 = - (31 * pi)" "pitch w2 = 0"
    using creeper_step_camera[OF c] assms(4-7)
    by (simp_all add: assms(9,14-16) camera_keys_turn turned normalize_axis)
  from stale_frame[OF c assms(3) assms(2) assms(8-13) assms(17-20)] show ?thesis
    by (simp add: cam)
qed

text \<open>The states of the run \<open>chase\<close>, frame by frame.\<close>

lemma main_prog_built:
  "main_prog (Loaded 1) plain_models frames =
     (case frame_loop frames built of
        Finished w' \<Rightarrow> Exit 0 []
      | Pending w' \<Rightarrow> Still_running w'
      | Undefined \<Rightarrow> Undefined_behaviour)"
proof -
  from minecraftScene_loaded[of 1 plain_models startup] obtain w0 where
    w0: "minecraftScene (Loaded 1) plain_models startup = Inr w0"
    by blast
  then have "built = w0\<lparr>running := True\<rparr>"
    by (simp add: built_def)
  with main_prog_loaded[OF w0] show ?thesis
    by simp
qed

lemma chase_states:
  "\<exists>w1 w2 w3 w4 w5 w6.
     tick ((quiet 3)\<lparr>keyDown := True, keyLeft := True\<rparr>) built = Some w1 \<and>
     tick (quiet 3) w1 = Some w2 \<and>
     tick ((quiet (31 - 90 / pi))\<lparr>keyA := True\<rparr>) w2 = Some w3 \<and>
     tick ((quiet (9/2))\<lparr>keyDown := True\<rparr>) w3 = Some w4 \<and>
     tick ((quiet 6)\<lparr>keyRight := True\<rparr>) w4 = Some w5 \<and>
     tick (quiet 1) w5 = Some w6 \<and>
     running w1 \<and> running w2 \<and> running w3 \<and> running w4 \<and> running w5 \<and> running w6 \<and>
     objects (myScene w1) =
       tiles @ [steve0\<lparr>position := Vec3 (- 3) 0 6, orientation := Vec3 0 (- (pi / 2)) 0\<rparr>,
                pig0\<lparr>position := Vec3 3 0 (- 6), orientation := Vec3 0 (pi / 2) 0\<rparr>,
                new_Object3D,
                creeper0\<lparr>position := Vec3 (- 6) 0 6, orientation := Vec3 0 (- (pi / 2)) 0\<rparr>] \<and>
     creeperRef w1 = Some 10204 \<and> steveRef w1 = Some 10201 \<and> pigRef w1 = Some 10202 \<and>
     pigFleeDir w1 = Vec3 1 0 0 \<and>
     objects (myScene w2) =
       tiles @ [pig0\<lparr>position := Vec3 3 0 (- 6), orientation := Vec3 0 (pi / 2) 0\<rparr>,
                new_Object3D\<lparr>position := Vec3 3 0 0, orientation := Vec3 0 (pi / 2) 0\<rparr>,
                creeper0\<lparr>position := Vec3 (- 6) 0 6, orientation := Vec3 0 (- (pi / 2)) 0\<rparr>] \<and>
     creeperRef w2 = Some 10203 \<and> steveRef w2 = None \<and> pigRef w2 = Some 10202 \<and>
     pigFleeDir w2 = Vec3 1 0 0 \<and>
     objects (myScene w5) =
       tiles @ [pig0\<lparr>position := Vec3 3 0 (- 6), orientation := Vec3 0 (pi / 2) 0\<rparr>,
                new_Object3D\<lparr>position := Vec3 (89 / 2 - 90 / pi) 0 0,
                             orientation := Vec3 0 (pi / 2) 0\<rparr>,
                creeper0\<lparr>position := Vec3 3 0 (- 6), orientation := Vec3 0 pi 0\<rparr>] \<and>
     creeperRef w5 = Some 10203 \<and> steveRef w5 = None \<and> pigRef w5 = Some 10202 \<and>
     pigFleeDir w5 = Vec3 1 0 0 \<and>
     objects (myScene w6) =
       tiles @ [pig0\<lparr>position := Vec3 3 0 (- 6), orientation := Vec3 0 (pi / 2) 0\<rparr>,
                new_Object3D\<lparr>position := Vec3 (91 / 2 - 90 / pi) 0 0,
                             orientation := Vec3 0 (pi / 2) 0\<rparr>,
                creeper0\<lparr>position := Vec3 3 0 (- 6), orientation := Vec3 0 pi 0\<rparr>] \<and>
     creeperRef w6 = Some 10203 \<and> steveRef w6 = None \<and> pigRef w6 = Some 10202 \<and>
     pigFleeDir w6 = Vec3 1 0 0"
proof -
  let ?pig = "pig0\<lparr>position := Vec3 3 0 (- 6), orientation := Vec3 0 (pi / 2) 0\<rparr>"
  let ?sky2 = "new_Object3D\<lparr>position := Vec3 3 0 0, orientation := Vec3 0 (pi / 2) 0\<rparr>"
  let ?sky3 = "new_Object3D\<lparr>position := Vec3 (34 - 90 / pi) 0 0,
                             orientation := Vec3 0 (pi / 2) 0\<rparr>"
  let ?sky4 = "new_Object3D\<lparr>position := Vec3 (77 / 2 - 90 / pi) 0 0,
                             orientation := Vec3 0 (pi / 2) 0\<rparr>"
  let ?sky5 = "new_Object3D\<lparr>position := Vec3 (89 / 2 - 90 / pi) 0 0,
                             orientation := Vec3 0 (pi / 2) 0\<rparr>"
  let ?sky6 = "new_Object3D\<lparr>position := Vec3 (91 / 2 - 90 / pi) 0 0,
                             orientation := Vec3 0 (pi / 2) 0\<rparr>"
  let ?hunter1 = "creeper0\<lparr>position := Vec3 (- 6) 0 6, orientation := Vec3 0 (- (pi / 2)) 0\<rparr>"
  let ?hunter4 = "creeper0\<lparr>position := Vec3 3 0 6, orientation := Vec3 0 (pi / 2) 0\<rparr>"
  let ?hunter5 = "creeper0\<lparr>position := Vec3 3 0 (- 6), orientation := Vec3 0 pi 0\<rparr>"
  let ?f4 = "(quiet (9/2))\<lparr>keyDown := True\<rparr>"
  let ?f5 = "(quiet 6)\<lparr>keyRight := True\<rparr>"
  let ?f6 = "quiet 1"
  from frame1 obtain w1 where
    t1: "tick ((quiet 3)\<lparr>keyDown := True, keyLeft := True\<rparr>) built = Some w1" and
    w1: "objects (myScene w1) =
       tiles @ [steve0\<lparr>position := Vec3 (- 3) 0 6, orientation := Vec3 0 (- (pi / 2)) 0\<rparr>,
                ?pig, new_Object3D, ?hunter1]"
      "animators (myScene w1) = []"
      "creeperRef w1 = Some 10204" "steveRef w1 = Some 10201" "pigRef w1 = Some 10202"
      "steveFleeDir w1 = Vec3 (- 1) 0 0" "pigFleeDir w1 = Vec3 1 0 0"
      "cameraUp w1 = Vec3 0 1 0" "yaw w1 = - 90" "pitch w1 = 0" "running w1"
    by blast
  from frame2[OF w1] obtain w2 where
    t2: "tick (quiet 3) w1 = Some w2" and
    w2: "objects (myScene w2) = tiles @ [?pig, ?sky2, ?hunter1]"
      "animators (myScene w2) = []"
      "creeperRef w2 = Some 10203" "steveRef w2 = None" "pigRef w2 = Some 10202"
      "pigFleeDir w2 = Vec3 1 0 0" "running w2"
      "cameraUp w2 = Vec3 0 1 0" "yaw w2 = - 90" "pitch w2 = 0"
    by blast
  have "\<exists>w3. tick ((quiet (31 - 90 / pi))\<lparr>keyA := True\<rparr>) w2 = Some w3 \<and>
     objects (myScene w3) = tiles @ [?pig, ?sky3, ?hunter1] \<and>
     animators (myScene w3) = [] \<and>
     creeperRef w3 = Some 10203 \<and> steveRef w3 = None \<and> pigRef w3 = Some 10202 \<and>
     pigFleeDir w3 = Vec3 1 0 0 \<and> running w3 \<and>
     cameraFront w3 = Vec3 (- 1) 0 0 \<and> cameraUp w3 = Vec3 0 1 0 \<and>
     yaw w3 = - (31 * pi) \<and> pitch w3 = 0"
    using frame3[OF w2] by (simp add: creeper0_def new_Object3D_def)
  then obtain w3 where
    t3: "tick ((quiet (31 - 90 / pi))\<lparr>keyA := True\<rparr>) w2 = Some w3" and
    w3: "objects (myScene w3) = tiles @ [?pig, ?sky3, ?hunter1]"
      "animators (myScene w3) = []"
      "creeperRef w3 = Some 10203" "steveRef w3 = None" "pigRef w3 = Some 10202"
      "pigFleeDir w3 = Vec3 1 0 0" "running w3"
      "cameraFront w3 = Vec3 (- 1) 0 0" "cameraUp w3 = Vec3 0 1 0"
      "yaw w3 = - (31 * pi)" "pitch w3 = 0"
    by blast
  have q4: "\<not> closed_event ?f4" "\<not> keyW ?f4" "\<not> keyS ?f4" "\<not> keyA ?f4" "\<not> keyD ?f4"
    and d4: "diff ?f4 = 9 / 2"
    by (simp_all add: quiet_def)
  from creeper_down[OF w3(1,3,8), of "9 / 2"] obtain v4 where
    c4: "creeper_step ?f4 (diff ?f4)
           (camera_keys ?f4 (diff ?f4) (sun_step (day_cycle (diff ?f4) w3))) = Some v4" and
    o4: "objects (myScene v4) = tiles @ [?pig, ?sky3, ?hunter4]"
    by (auto simp: d4 creeper0_def plus_vec3_def)
  have b4: "- 50 \<le> 34 - 90 / pi + diff ?f4" "34 - 90 / pi + diff ?f4 \<le> 50"
    unfolding d4 using turn_time by linarith+
  have "\<exists>w4. tick ?f4 w3 = Some w4 \<and>
     objects (myScene w4) = tiles @ [?pig, ?sky4, ?hunter4] \<and>
     animators (myScene w4) = [] \<and>
     creeperRef w4 = Some 10203 \<and> steveRef w4 = None \<and> pigRef w4 = Some 10202 \<and>
     pigFleeDir w4 = Vec3 1 0 0 \<and> running w4 \<and>
     cameraFront w4 = Vec3 (- 1) 0 0 \<and> cameraUp w4 = Vec3 0 1 0 \<and>
     yaw w4 = - (31 * pi) \<and> pitch w4 = 0"
    using turned_frame[OF c4 o4 q4 w3(2-7) w3(9-11) _ b4]
    by (simp add: d4 creeper0_def)
  then obtain w4 where
    t4: "tick ?f4 w3 = Some w4" and
    w4: "objects (myScene w4) = tiles @ [?pig, ?sky4, ?hunter4]"
      "animators (myScene w4) = []"
      "creeperRef w4 = Some 10203" "steveRef w4 = None" "pigRef w4 = Some 10202"
      "pigFleeDir w4 = Vec3 1 0 0" "running w4"
      "cameraFront w4 = Vec3 (- 1) 0 0" "cameraUp w4 = Vec3 0 1 0"
      "yaw w4 = - (31 * pi)" "pitch w4 = 0"
    by blast
  have q5: "\<not> closed_event ?f5" "\<not> keyW ?f5" "\<not> keyS ?f5" "\<not> keyA ?f5" "\<not> keyD ?f5"
    and d5: "diff ?f5 = 6"
    by (simp_all add: quiet_def)
  from creeper_right[OF w4(1,3,8,9), of 6] obtain v5 where
    c5: "creeper_step ?f5 (diff ?f5)
           (camera_keys ?f5 (diff ?f5) (sun_step (day_cycle (diff ?f5) w4))) = Some v5" and
    o5: "objects (myScene v5) = tiles @ [?pig, ?sky4, ?hunter5]"
    by (auto simp: d5 creeper0_def plus_vec3_def)
  have b5: "- 50 \<le> 77 / 2 - 90 / pi + diff ?f5" "77 / 2 - 90 / pi + diff ?f5 \<le> 50"
    unfolding d5 using turn_time by linarith+
  have "\<exists>w5. tick ?f5 w4 = Some w5 \<and>
     objects (myScene w5) = tiles @ [?pig, ?sky5, ?hunter5] \<and>
     animators (myScene w5) = [] \<and>
     creeperRef w5 = Some 10203 \<and> steveRef w5 = None \<and> pigRef w5 = Some 10202 \<and>
     pigFleeDir w5 = Vec3 1 0 0 \<and> running w5 \<and>
     cameraFront w5 = Vec3 (- 1) 0 0 \<and> cameraUp w5 = Vec3 0 1 0 \<and>
     yaw w5 = - (31 * pi) \<and> pitch w5 = 0"
    using turned_frame[OF c5 o5 q5 w4(2-7) w4(9-11) _ b5]
    by (simp add: d5 creeper0_def)
  then obtain w5 where
    t5: "tick ?f5 w4 = Some w5" and
    w5: "objects (myScene w5) = tiles @ [?pig, ?sky5, ?hunter5]"
      "animators (myScene w5) = []"
      "creeperRef w5 = Some 10203" "steveRef w5 = None" "pigRef w5 = Some 10202"
      "pigFleeDir w5 = Vec3 1 0 0" "running w5"
      "cameraFront w5 = Vec3 (- 1) 0 0" "cameraUp w5 = Vec3 0 1 0"
      "yaw w5 = - (31 * pi)" "pitch w5 = 0"
    by blast
  have q6: "\<not> closed_event ?f6" "\<not> keyW ?f6" "\<not> keyS ?f6" "\<not> keyA ?f6" "\<not> keyD ?f6"
    and k6: "\<not> keyUp ?f6" "\<not> keyDown ?f6" "\<not> keyLeft ?f6" "\<not> keyRight ?f6"
    and d6: "diff ?f6 = 1"
    by (simp_all add: quiet_def)
  from creeper_none[OF w5(1,3) k6, of "diff ?f6"] obtain v6 where
    c6: "creeper_step ?f6 (diff ?f6)
           (camera_keys ?f6 (diff ?f6) (sun_step (day_cycle (diff ?f6) w5))) = Some v6" and
    o6: "objects (myScene v6) = tiles @ [?pig, ?sky5, ?hunter5]"
    by blast
  have b6: "- 50 \<le> 89 / 2 - 90 / pi + diff ?f6" "89 / 2 - 90 / pi + diff ?f6 \<le> 50"
    unfolding d6 using turn_time by linarith+
  have "\<exists>w6. tick ?f6 w5 = Some w6 \<and>
     objects (myScene w6) = tiles @ [?pig, ?sky6, ?hunter5] \<and>
     animators (myScene w6) = [] \<and>
     creeperRef w6 = Some 10203 \<and> steveRef w6 = None \<and> pigRef w6 = Some 10202 \<and>
     pigFleeDir w6 = Vec3 1 0 0 \<and> running w6 \<and>
     cameraFront w6 = Vec3 (- 1) 0 0 \<and> cameraUp w6 = Vec3 0 1 0 \<and>
     yaw w6 = - (31 * pi) \<and> pitch w6 = 0"
    using turned_frame[OF c6 o6 q6 w5(2-7) w5(9-11) _ b6]
    by (simp add: d6 creeper0_def)
  then obtain w6 where
    t6: "tick ?f6 w5 = Some w6" and
    w6: "objects (myScene w6) = tiles @ [?pig, ?sky6, ?hunter5]"
      "creeperRef w6 = Some 10203" "steveRef w6 = None" "pigRef w6 = Some 10202"
      "pigFleeDir w6 = Vec3 1 0 0" "running w6"
    by blast
  show ?thesis
    using t1 t2 t3 t4 t5 t6 w1(1,3,4,5,7,11) w2(1,3,4,5,6,7) w3(7) w4(7) w5(1,3,4,5,6,7) w6
    by blast
qed

section \<open>Removal of a target\<close>

text \<open>
  C1. The removal misses the second target once the first target has been caught. The
  program starts with a shader and models that load, and runs the frames of \<open>chase\<close>.
  The reference of the second target is taken to slot 10202, which holds that target. In
  the second frame the first target is erased from slot 10201, which moves every later
  object one slot down; the hunter reference is bound again by name, and the reference of
  the second target is left at slot 10202, where the sky object now is. After the fifth
  frame the hunter stands at \<open>(3, 0, -6)\<close>, where the second target stands, and the hunter
  reference and the reference of the second target are both set. The sixth frame, of one
  second, measures the distance from the hunter to the sky object instead: the second
  target, at distance 0 from the hunter before and after that frame, stays in the object
  list, its reference stays set, and the loop goes on.
\<close>

theorem second_target_survives_contact:
  "pigRef built = Some 10202 \<and> objects (myScene built) ! 10202 = pig0 \<and>
   0 < diff (chase ! 2) \<and>
   (\<exists>w5 w6.
      main_prog (Loaded 1) plain_models (butlast chase) = Still_running w5 \<and>
      main_prog (Loaded 1) plain_models chase = Still_running w6 \<and>
      tick (last chase) w5 = Some w6 \<and>
      objects (myScene w5) =
        tiles @ [pig0\<lparr>position := Vec3 3 0 (- 6), orientation := Vec3 0 (pi / 2) 0\<rparr>,
                 new_Object3D\<lparr>position := Vec3 (89 / 2 - 90 / pi) 0 0,
                              orientation := Vec3 0 (pi / 2) 0\<rparr>,
                 creeper0\<lparr>position := Vec3 3 0 (- 6), orientation := Vec3 0 pi 0\<rparr>] \<and>
      creeperRef w5 = Some 10203 \<and> steveRef w5 = None \<and> pigRef w5 = Some 10202 \<and>
      glm_length (position (objects (myScene w5) ! 10203) -
                  position (objects (myScene w5) ! 10201)) < 0.8 \<and>
      objects (myScene w6) =
        tiles @ [pig0\<lparr>position := Vec3 3 0 (- 6), orientation := Vec3 0 (pi / 2) 0\<rparr>,
                 new_Object3D\<lparr>position := Vec3 (91 / 2 - 90 / pi) 0 0,
                              orientation := Vec3 0 (pi / 2) 0\<rparr>,
                 creeper0\<lparr>position := Vec3 3 0 (- 6), orientation := Vec3 0 pi 0\<rparr>] \<and>
      creeperRef w6 = Some 10203 \<and> steveRef w6 = None \<and> pigRef w6 = Some 10202 \<and>
      glm_length (position (objects (myScene w6) ! 10203) -
                  position (objects (myScene w6) ! 10201)) < 0.8)"
proof -
  from chase_states obtain w1 w2 w3 w4 w5 w6 where
    t: "tick ((quiet 3)\<lparr>keyDown := True, keyLeft := True\<rparr>) built = Some w1"
      "tick (quiet 3) w1 = Some w2"
      "tick ((quiet (31 - 90 / pi))\<lparr>keyA := True\<rparr>) w2 = Some w3"
      "tick ((quiet (9/2))\<lparr>keyDown := True\<rparr>) w3 = Some w4"
      "tick ((quiet 6)\<lparr>keyRight := True\<rparr>) w4 = Some w5"
      "tick (quiet 1) w5 = Some w6" and
    r: "running w1" "running w2" "running w3" "running w4" "running w5" "running w6" and
    w5: "objects (myScene w5) =
        tiles @ [pig0\<lparr>position := Vec3 3 0 (- 6), orientation := Vec3 0 (pi / 2) 0\<rparr>,
                 new_Object3D\<lparr>position := Vec3 (89 / 2 - 90 / pi) 0 0,
                              orientation := Vec3 0 (pi / 2) 0\<rparr>,
                 creeper0\<lparr>position := Vec3 3 0 (- 6), orientation := Vec3 0 pi 0\<rparr>]"
      "creeperRef w5 = Some 10203" "steveRef w5 = None" "pigRef w5 = Some 10202" and
    w6: "objects (myScene w6) =
        tiles @ [pig0\<lparr>position := Vec3 3 0 (- 6), orientation := Vec3 0 (pi / 2) 0\<rparr>,
                 new_Object3D\<lparr>position := Vec3 (91 / 2 - 90 / pi) 0 0,
                              orientation := Vec3 0 (pi / 2) 0\<rparr>,
                 creeper0\<lparr>position := Vec3 3 0 (- 6), orientation := Vec3 0 pi 0\<rparr>]"
      "creeperRef w6 = Some 10203" "steveRef w6 = None" "pigRef w6 = Some 10202"
    by blast
  have near: "glm_length (Vec3 0 0 0) < 0.8"
    by (subst glm_length_less) (simp_all add: dot_def power2_eq_square)
  have d5: "glm_length (position (objects (myScene w5) ! 10203) -
                        position (objects (myScene w5) ! 10201)) < 0.8"
    using near by (simp add: w5(1) nth_append length_tiles minus_vec3_def)
  have d6: "glm_length (position (objects (myScene w6) ! 10203) -
                        position (objects (myScene w6) ! 10201)) < 0.8"
    using near by (simp add: w6(1) nth_append length_tiles minus_vec3_def)
  have m5: "main_prog (Loaded 1) plain_models (butlast chase) = Still_running w5"
    by (subst main_prog_built) (simp add: chase_def first_catch_def t r built_refs)
  have m6: "main_prog (Loaded 1) plain_models chase = Still_running w6"
    by (subst main_prog_built) (simp add: chase_def first_catch_def t r built_refs)
  have l: "tick (last chase) w5 = Some w6"
    by (simp add: chase_def first_catch_def t)
  have p: "pigRef built = Some 10202" "objects (myScene built) ! 10202 = pig0"
    by (simp_all add: built_refs built_objects nth_append length_tiles)
  have pos: "0 < diff (chase ! 2)"
    using turn_time(1) by (simp add: chase_def first_catch_def quiet_def)
  from p pos m5 m6 l w5 d5 w6 d6 show ?thesis
    by blast
qed

section \<open>The ambient colour\<close>

text \<open>
  C4. Let \<open>t\<close> be the clock after the frame time is added. For \<open>t\<close> in \<open>[0, 30)\<close> the
  ambient colour is the linear interpolation from white \<open>(1, 1, 1)\<close> to orange
  \<open>(1, 0.6, 0.2)\<close> with fraction \<open>t / 30\<close>; for \<open>t\<close> in \<open>[30, 60)\<close> from orange to
  dark blue \<open>(0.05, 0.05, 0.1)\<close> with fraction \<open>(t - 30) / 30\<close>; for \<open>t\<close> in
  \<open>[60, 90)\<close> from dark blue back to white with fraction \<open>(t - 60) / 30\<close>. At
  \<open>t = 0\<close> the colour is white, at \<open>t = 15\<close> the blend fraction is one half, at
  \<open>t = 30\<close> the colour is orange, and from \<open>t = 90\<close> on the clock is set back to 0, so
  that the next frame is in the first phase again.
\<close>

theorem ambient_colour_phases:
  fixes w :: world and dt :: real
  defines "t \<equiv> sunTime w + dt"
  defines "w' \<equiv> day_cycle dt w"
  shows "(0 \<le> t \<and> t < 30 \<longrightarrow>
            sunTime w' = t \<and> ambientColor w' = lerp (Vec3 1 1 1) (Vec3 1 0.6 0.2) (t / 30))
       \<and> (30 \<le> t \<and> t < 60 \<longrightarrow>
            sunTime w' = t \<and>
            ambientColor w' = lerp (Vec3 1 0.6 0.2) (Vec3 0.05 0.05 0.1) ((t - 30) / 30))
       \<and> (60 \<le> t \<and> t < 90 \<longrightarrow>
            sunTime w' = t \<and>
            ambientColor w' = lerp (Vec3 0.05 0.05 0.1) (Vec3 1 1 1) ((t - 60) / 30))
       \<and> (t = 0 \<longrightarrow> ambientColor w' = Vec3 1 1 1)
       \<and> (t = 15 \<longrightarrow> ambientColor w' = lerp (Vec3 1 1 1) (Vec3 1 0.6 0.2) (1 / 2))
       \<and> (t = 30 \<longrightarrow> ambientColor w' = Vec3 1 0.6 0.2)
       \<and> (90 \<le> t \<longrightarrow> sunTime w' = 0 \<and>
            (\<forall>dt'. 0 \<le> dt' \<and> dt' < 30 \<longrightarrow>
               ambientColor (day_cycle dt' w') = lerp (Vec3 1 1 1) (Vec3 1 0.6 0.2) (dt' / 30)))"
  unfolding t_def w'_def
  by (auto simp: day_cycle_phase1 day_cycle_phase2 day_cycle_phase3 day_cycle_reset mix_lerp
      lerp_def vmul_def plus_vec3_def minus_vec3_def)

theorem ambient_colour_phases_witness:
  "ambientColor (day_cycle 0 built) = Vec3 1 1 1 \<and>
   ambientColor (day_cycle 15 built) = Vec3 1 (4 / 5) (3 / 5) \<and>
   ambientColor (day_cycle 30 built) = Vec3 1 (3 / 5) (1 / 5) \<and>
   ambientColor (day_cycle 45 built) = Vec3 (21 / 40) (13 / 40) (3 / 20) \<and>
   ambientColor (day_cycle 75 built) = Vec3 (21 / 40) (21 / 40) (11 / 20) \<and>
   sunTime (day_cycle 90 built) = 0 \<and>
   ambientColor (day_cycle 15 (day_cycle 90 built)) = Vec3 1 (4 / 5) (3 / 5)"
  using ambient_colour_phases[of built 0] ambient_colour_phases[of built 15]
    ambient_colour_phases[of built 30] ambient_colour_phases[of built 45]
    ambient_colour_phases[of built 75] ambient_colour_phases[of built 90]
  by (simp add: built_refs lerp_def vmul_def plus_vec3_def minus_vec3_def)

text \<open>
  C10. In a frame where the clock, after the frame time is added, has reached 90, the
  clock is set to 0 and the ambient colour keeps the value it had: nothing else of the
  state changes. The colour is interpolated from the reset clock in the frame after it,
  as the first phase prescribes when that frame is shorter than 30 seconds.
\<close>

theorem colour_kept_on_reset:
  assumes "90 \<le> sunTime w + dt"
  shows "day_cycle dt w = w\<lparr>sunTime := 0\<rparr>
       \<and> sunTime (day_cycle dt w) = 0
       \<and> ambientColor (day_cycle dt w) = ambientColor w
       \<and> (0 \<le> dt' \<and> dt' < 30 \<longrightarrow>
            ambientColor (day_cycle dt' (day_cycle dt w)) =
              mix (Vec3 1 1 1) (Vec3 1 0.6 0.2) (dt' / 30))"
  using assms by (simp add: day_cycle_reset day_cycle_phase1)

theorem colour_kept_on_reset_witness:
  "90 \<le> sunTime (day_cycle 75 built) + 20 \<and>
   ambientColor (day_cycle 75 built) = Vec3 (21 / 40) (21 / 40) (11 / 20) \<and>
   ambientColor (day_cycle 20 (day_cycle 75 built)) = Vec3 (21 / 40) (21 / 40) (11 / 20) \<and>
   sunTime (day_cycle 20 (day_cycle 75 built)) = 0 \<and>
   ambientColor (day_cycle 15 (day_cycle 20 (day_cycle 75 built))) = Vec3 1 (4 / 5) (3 / 5)"
proof -
  have t: "sunTime (day_cycle 75 built) = 75"
    and c: "ambientColor (day_cycle 75 built) = Vec3 (21 / 40) (21 / 40) (11 / 20)"
    by (simp_all add: day_cycle_phase3 built_refs mix_def vmul_def plus_vec3_def)
  have h: "90 \<le> sunTime (day_cycle 75 built) + 20"
    by (simp add: t)
  show ?thesis
    using colour_kept_on_reset[OF h, of 15, THEN conjunct2] h c
    by (simp add: mix_def vmul_def plus_vec3_def)
qed

section \<open>The sun\<close>

text \<open>
  C8. In a frame where the light reference is set, the position of the light becomes
  \<open>(x, 40, -20)\<close> with \<open>x = -30 + (sunTime / 60) * 60\<close>, which is \<open>sunTime - 30\<close> and
  runs from -30 to 30 while the clock runs from 0 to 60; once that \<open>x\<close> would pass 30,
  the position becomes \<open>(1000, 40, -20)\<close> instead. The light is moved and not removed:
  the reference stays set, and the scene and every other part of the state are as
  before.
\<close>

theorem sun_sweeps_then_hides:
  assumes "sunRef w = Some sun"
  shows "sun_step w =
           w\<lparr>sunRef := Some (sun\<lparr>position :=
                Vec3 (if - 30 + (sunTime w / 60) * 60 > 30 then 1000
                      else - 30 + (sunTime w / 60) * 60) 40 (- 20)\<rparr>)\<rparr>
       \<and> (0 \<le> sunTime w \<and> sunTime w \<le> 60 \<longrightarrow>
           (\<exists>sun'. sunRef (sun_step w) = Some sun' \<and>
              position sun' = Vec3 (sunTime w - 30) 40 (- 20) \<and>
              - 30 \<le> vx (position sun') \<and> vx (position sun') \<le> 30))
       \<and> (60 < sunTime w \<longrightarrow>
           (\<exists>sun'. sunRef (sun_step w) = Some sun' \<and> position sun' = Vec3 1000 40 (- 20)))
       \<and> myScene (sun_step w) = myScene w"
  using assms by (simp add: sun_step_def Let_def setPosition_def)

theorem sun_sweeps_then_hides_witness:
  "(\<exists>sun. sunRef built = Some sun) \<and>
   map_option position (sunRef (sun_step (built\<lparr>sunTime := 0\<rparr>))) = Some (Vec3 (- 30) 40 (- 20)) \<and>
   map_option position (sunRef (sun_step (built\<lparr>sunTime := 45\<rparr>))) = Some (Vec3 15 40 (- 20)) \<and>
   map_option position (sunRef (sun_step (built\<lparr>sunTime := 60\<rparr>))) = Some (Vec3 30 40 (- 20)) \<and>
   map_option position (sunRef (sun_step (built\<lparr>sunTime := 61\<rparr>))) = Some (Vec3 1000 40 (- 20))"
proof -
  obtain sun where s: "sunRef built = Some sun"
    by (simp add: built_def minecraftScene_def texturingShader_def Let_def)
  have "sunRef (built\<lparr>sunTime := t\<rparr>) = Some sun" for t
    using s by simp
  from sun_sweeps_then_hides[OF this] s show ?thesis
    by simp
qed

section \<open>Movement of a target\<close>

text \<open>
  C5. The second target is not moved once the first target has been caught. The program
  starts with a shader and models that load, and runs the frames of \<open>first_catch\<close>. The
  reference of the second target is taken to slot 10202, which holds that target. After
  the first frame the second target stands at \<open>(3, 0, -6)\<close>, in slot 10202, with flee
  direction \<open>(1, 0, 0)\<close>. The second frame lasts three seconds: the first target is
  erased from slot 10201, the second target comes to slot 10201, and its step, in the same
  frame, moves and turns the object of slot 10202, which is the sky object now. The second
  target is still in the object list and its reference is set, but its position is the
  one it had, not that plus direction times speed times \<open>dt\<close>.
\<close>

theorem second_target_left_unmoved:
  "pigRef built = Some 10202 \<and> objects (myScene built) ! 10202 = pig0 \<and>
   (\<exists>w1 w2.
      main_prog (Loaded 1) plain_models (butlast first_catch) = Still_running w1 \<and>
      main_prog (Loaded 1) plain_models first_catch = Still_running w2 \<and>
      tick (last first_catch) w1 = Some w2 \<and> diff (last first_catch) = 3 \<and>
      objects (myScene w1) =
        tiles @ [steve0\<lparr>position := Vec3 (- 3) 0 6, orientation := Vec3 0 (- (pi / 2)) 0\<rparr>,
                 pig0\<lparr>position := Vec3 3 0 (- 6), orientation := Vec3 0 (pi / 2) 0\<rparr>,
                 new_Object3D,
                 creeper0\<lparr>position := Vec3 (- 6) 0 6, orientation := Vec3 0 (- (pi / 2)) 0\<rparr>] \<and>
      creeperRef w1 = Some 10204 \<and> steveRef w1 = Some 10201 \<and> pigRef w1 = Some 10202 \<and>
      pigFleeDir w1 = Vec3 1 0 0 \<and>
      objects (myScene w2) =
        tiles @ [pig0\<lparr>position := Vec3 3 0 (- 6), orientation := Vec3 0 (pi / 2) 0\<rparr>,
                 new_Object3D\<lparr>position := Vec3 3 0 0, orientation := Vec3 0 (pi / 2) 0\<rparr>,
                 creeper0\<lparr>position := Vec3 (- 6) 0 6, orientation := Vec3 0 (- (pi / 2)) 0\<rparr>] \<and>
      creeperRef w2 = Some 10203 \<and> steveRef w2 = None \<and> pigRef w2 = Some 10202 \<and>
      pigFleeDir w2 = Vec3 1 0 0 \<and>
      position (objects (myScene w2) ! 10201) \<noteq>
        position (objects (myScene w1) ! 10202) + vmul (pigFleeDir w1) (1 * 3))"
proof -
  from chase_states obtain w1 w2 where
    t: "tick ((quiet 3)\<lparr>keyDown := True, keyLeft := True\<rparr>) built = Some w1"
      "tick (quiet 3) w1 = Some w2" and
    r: "running w1" "running w2" and
    w1: "objects (myScene w1) =
        tiles @ [steve0\<lparr>position := Vec3 (- 3) 0 6, orientation := Vec3 0 (- (pi / 2)) 0\<rparr>,
                 pig0\<lparr>position := Vec3 3 0 (- 6), orientation := Vec3 0 (pi / 2) 0\<rparr>,
                 new_Object3D,
                 creeper0\<lparr>position := Vec3 (- 6) 0 6, orientation := Vec3 0 (- (pi / 2)) 0\<rparr>]"
      "creeperRef w1 = Some 10204" "steveRef w1 = Some 10201" "pigRef w1 = Some 10202"
      "pigFleeDir w1 = Vec3 1 0 0" and
    w2: "objects (myScene w2) =
        tiles @ [pig0\<lparr>position := Vec3 3 0 (- 6), orientation := Vec3 0 (pi / 2) 0\<rparr>,
                 new_Object3D\<lparr>position := Vec3 3 0 0, orientation := Vec3 0 (pi / 2) 0\<rparr>,
                 creeper0\<lparr>position := Vec3 (- 6) 0 6, orientation := Vec3 0 (- (pi / 2)) 0\<rparr>]"
      "creeperRef w2 = Some 10203" "steveRef w2 = None" "pigRef w2 = Some 10202"
      "pigFleeDir w2 = Vec3 1 0 0"
    by blast
  have m1: "main_prog (Loaded 1) plain_models (butlast first_catch) = Still_running w1"
    by (subst main_prog_built) (simp add: first_catch_def t r built_refs)
  have m2: "main_prog (Loaded 1) plain_models first_catch = Still_running w2"
    by (subst main_prog_built) (simp add: first_catch_def t r built_refs)
  have l: "tick (last first_catch) w1 = Some w2"
    by (simp add: first_catch_def t)
  have dt: "diff (last first_catch) = 3"
    by (simp add: first_catch_def quiet_def)
  have p: "pigRef built = Some 10202" "objects (myScene built) ! 10202 = pig0"
    by (simp_all add: built_refs built_objects nth_append length_tiles)
  have ne: "position (objects (myScene w2) ! 10201) \<noteq>
        position (objects (myScene w1) ! 10202) + vmul (pigFleeDir w1) (1 * 3)"
    by (simp add: w1 w2 nth_append length_tiles plus_vec3_def vmul_def)
  from p m1 m2 l dt w1 w2 ne show ?thesis
    by blast
qed

section \<open>Start-up and the end of the loop\<close>

text \<open>
  C9. When loading the shader raises a runtime error, either shader constructor ends
  the process with status 1 after writing \<open>ERROR:\<close> and the message; the scene
  constructor and \<open>main\<close> end the same way whatever frames would have followed, so the
  frame loop is not entered. When loading succeeds, the constructor returns the loaded
  program as it is, and it becomes the program of the scene.
\<close>

theorem shader_error_exits_with_one:
  "texturingShader (Runtime_error what) = Inl (''ERROR: '' @ what, 1)
 \<and> phongLightingShader (Runtime_error what) = Inl (''ERROR: '' @ what, 1)
 \<and> minecraftScene (Runtime_error what) m w = Inl (''ERROR: '' @ what, 1)
 \<and> main_prog (Runtime_error what) m frames = Exit 1 [''ERROR: '' @ what]
 \<and> texturingShader (Loaded shader) = Inr shader
 \<and> phongLightingShader (Loaded shader) = Inr shader
 \<and> (\<exists>w'. minecraftScene (Loaded shader) m w = Inr w' \<and> program (myScene w') = shader)"
  using minecraftScene_loaded[of shader m w]
  by (auto simp: texturingShader_def phongLightingShader_def minecraftScene_failure main_prog_def)

text \<open>
  C6. A frame that ends with both target references null clears \<open>running\<close> in that
  same pass, after a \<open>Sleep\<close> of 3 milliseconds, so the loop ends there and no further
  frame runs; a frame in which the window was closed clears \<open>running\<close> as well. Whenever
  the loop ends, \<open>main\<close> returns 0. The process exits with status 0 only after the
  shader was loaded, and with a status other than 0 only when loading the shader failed,
  and then the status is 1.
\<close>

theorem loop_ends_and_exit_status:
  "(tick inp w = Some w' \<and> steveRef w' = None \<and> pigRef w' = None \<longrightarrow>
      \<not> running w' \<and> slept w' = slept w + 3 \<and>
      (running w \<longrightarrow> frame_loop (inp # rest) w = Finished w'))
 \<and> (tick inp w = Some w' \<and> closed_event inp \<longrightarrow>
      \<not> running w' \<and> (running w \<longrightarrow> frame_loop (inp # rest) w = Finished w'))
 \<and> (minecraftScene (Loaded shader) m startup = Inr w0 \<and>
    frame_loop frames (w0\<lparr>running := True\<rparr>) = Finished w' \<longrightarrow>
      main_prog (Loaded shader) m frames = Exit 0 [])
 \<and> (main_prog r m frames = Exit status out \<longrightarrow>
      (status = 0 \<and> out = [] \<and> (\<exists>shader. r = Loaded shader)) \<or>
      (status = 1 \<and> (\<exists>what. r = Runtime_error what \<and> out = [''ERROR: '' @ what])))"
proof (intro conjI impI)
  assume a: "tick inp w = Some w' \<and> steveRef w' = None \<and> pigRef w' = None"
  with tick_slept_running[of inp w w'] show "\<not> running w'" and "slept w' = slept w + 3"
    by simp_all
  then show "frame_loop (inp # rest) w = Finished w'" if "running w"
    using that a by (simp add: frame_loop_stopped)
next
  assume a: "tick inp w = Some w' \<and> closed_event inp"
  with tick_slept_running[of inp w w'] show "\<not> running w'"
    by simp
  then show "frame_loop (inp # rest) w = Finished w'" if "running w"
    using that a by (simp add: frame_loop_stopped)
next
  assume "minecraftScene (Loaded shader) m startup = Inr w0 \<and>
    frame_loop frames (w0\<lparr>running := True\<rparr>) = Finished w'"
  then show "main_prog (Loaded shader) m frames = Exit 0 []"
    by (simp add: main_prog_loaded)
next
  assume e: "main_prog r m frames = Exit status out"
  show "(status = 0 \<and> out = [] \<and> (\<exists>shader. r = Loaded shader)) \<or>
      (status = 1 \<and> (\<exists>what. r = Runtime_error what \<and> out = [''ERROR: '' @ what]))"
  proof (cases r)
    case (Loaded shader)
    from minecraftScene_loaded[of shader m startup] obtain w0 where
      "minecraftScene (Loaded shader) m startup = Inr w0" by blast
    from main_prog_loaded[OF this, of frames] e Loaded show ?thesis
      by (auto split: run.splits)
  next
    case (Runtime_error what)
    with e show ?thesis
      by (simp add: main_prog_def minecraftScene_failure)
  qed
qed

theorem loop_ends_and_exit_status_witness:
  "(\<exists>w'. tick (quiet (1/10)) (pig_left (Vec3 0 0 0)) = Some w' \<and>
         steveRef w' = None \<and> pigRef w' = None \<and> \<not> running w' \<and> slept w' = 3 \<and>
         frame_loop [quiet (1/10), quiet (1/10)] (pig_left (Vec3 0 0 0)) = Finished w')
 \<and> (\<exists>w'. tick ((quiet (1/10))\<lparr>closed_event := True\<rparr>) built = Some w' \<and> \<not> running w' \<and>
         frame_loop [(quiet (1/10))\<lparr>closed_event := True\<rparr>, quiet (1/10)] built = Finished w')
 \<and> main_prog (Loaded 1) plain_models [(quiet (1/10))\<lparr>closed_event := True\<rparr>] = Exit 0 []
 \<and> main_prog (Runtime_error ''link'') plain_models [] = Exit 1 [''ERROR: link'']"
proof (intro conjI)
  from tick_last_catch obtain w' where
    w': "tick (quiet (1/10)) (pig_left (Vec3 0 0 0)) = Some w'" "steveRef w' = None" "pigRef w' = None"
    by blast
  from loop_ends_and_exit_status[where inp = "quiet (1/10)" and w = "pig_left (Vec3 0 0 0)"
      and w' = w' and rest = "[quiet (1/10)]"] w'
  have "\<not> running w'" "slept w' = 3"
    "frame_loop [quiet (1/10), quiet (1/10)] (pig_left (Vec3 0 0 0)) = Finished w'"
    by (simp_all add: pig_left_facts)
  with w' show "\<exists>w'. tick (quiet (1/10)) (pig_left (Vec3 0 0 0)) = Some w' \<and>
         steveRef w' = None \<and> pigRef w' = None \<and> \<not> running w' \<and> slept w' = 3 \<and>
         frame_loop [quiet (1/10), quiet (1/10)] (pig_left (Vec3 0 0 0)) = Finished w'"
    by blast
next
  let ?f = "(quiet (1/10))\<lparr>closed_event := True\<rparr>"
  from tick_wellformed[OF built_wellformed, of ?f] obtain w' where
    w': "tick ?f built = Some w'" by blast
  from loop_ends_and_exit_status[where inp = ?f and w = built and w' = w'
      and rest = "[quiet (1/10)]"] w'
  have "\<not> running w'" "frame_loop [?f, quiet (1/10)] built = Finished w'"
    by (simp_all add: built_refs)
  with w' show "\<exists>w'. tick ?f built = Some w' \<and> \<not> running w' \<and>
         frame_loop [?f, quiet (1/10)] built = Finished w'"
    by blast
next
  let ?f = "(quiet (1/10))\<lparr>closed_event := True\<rparr>"
  from minecraftScene_loaded[of 1 plain_models startup] obtain w0 where
    w0: "minecraftScene (Loaded 1) plain_models startup = Inr w0" by blast
  then have b: "w0\<lparr>running := True\<rparr> = built"
    by (simp add: built_def)
  from tick_wellformed[OF built_wellformed, of ?f] obtain w' where
    w': "tick ?f built = Some w'" by blast
  from loop_ends_and_exit_status[where inp = ?f and w = built and w' = w' and rest = "[]"] w'
  have "frame_loop [?f] built = Finished w'"
    by (simp add: built_refs)
  with loop_ends_and_exit_status[where shader = 1 and m = plain_models and ?w0.0 = w0
      and frames = "[?f]" and w' = w'] w0 b
  show "main_prog (Loaded 1) plain_models [?f] = Exit 0 []"
    by simp
next
  from loop_ends_and_exit_status[where m = plain_models and frames = "[]"
      and r = "Runtime_error ''link''" and status = 1 and out = "[''ERROR: link'']"]
  show "main_prog (Runtime_error ''link'') plain_models [] = Exit 1 [''ERROR: link'']"
    by (simp add: main_prog_def minecraftScene_failure)
qed

section \<open>The other references after a removal\<close>







section \<open>The bounce at the edge of the map\<close>

text \<open>While a step is at most half the width of the map, a target inside the map on an
  axis stays inside on that axis.\<close>

lemma bounce_keeps_inside:
  assumes "mapMinX \<le> vx pos" and "vx pos \<le> mapMaxX" and "\<bar>vx d * dt\<bar> \<le> 50"
  shows "mapMinX \<le> vx (pos + vmul (bounce (pos + vmul d (1 * dt)) d) (1 * dt))"
    and "vx (pos + vmul (bounce (pos + vmul d (1 * dt)) d) (1 * dt)) \<le> mapMaxX"
  using assms
  by (auto simp: bounce_components plus_vec3_def vmul_def mapMinX_def mapMaxX_def)

lemma bounce_keeps_inside_z:
  assumes "mapMinZ \<le> vz pos" and "vz pos \<le> mapMaxZ" and "\<bar>vz d * dt\<bar> \<le> 50"
  shows "mapMinZ \<le> vz (pos + vmul (bounce (pos + vmul d (1 * dt)) d) (1 * dt))"
    and "vz (pos + vmul (bounce (pos + vmul d (1 * dt)) d) (1 * dt)) \<le> mapMaxZ"
  using assms
  by (auto simp: bounce_components plus_vec3_def vmul_def mapMinZ_def mapMaxZ_def)

text \<open>
  C2. On the scene as built, a frame of 60 seconds: the first target stands at
  \<open>x = 0\<close>, inside the map, and flees along \<open>-x\<close>; the proposed position has
  \<open>x = -60\<close>, so the \<open>x\<close> component of the direction is inverted, once, and the
  position is computed again with it, which gives \<open>x = 60\<close>: the target ends the
  frame beyond \<open>mapMaxX\<close>, and it is still in the scene.
\<close>

theorem bounce_overshoots_far_edge:
  "mapMinX \<le> vx (position (objects (myScene built) ! 10201)) \<and>
   vx (position (objects (myScene built) ! 10201)) \<le> mapMaxX \<and>
   steveRef built = Some 10201 \<and> steveFleeDir built = Vec3 (- 1) 0 0 \<and>
   (\<exists>w'. steve_step 60 built = Some w' \<and> steveRef w' = Some 10201 \<and>
      steveFleeDir w' = Vec3 1 0 0 \<and>
      position (objects (myScene w') ! 10201) = Vec3 60 0 6 \<and>
      mapMaxX < vx (position (objects (myScene w') ! 10201)))"
proof -
  let ?objs = "tiles @ [steve0, pig0, new_Object3D, creeper0]"
  have dir: "fst (flee_move 60 10201 (Vec3 (- 1) 0 0) ?objs) = Vec3 1 0 0"
    by (simp add: flee_move_dir nth_append length_tiles steve0_def bounce_def
        plus_vec3_def vmul_def mapMinX_def mapMaxX_def mapMinZ_def mapMaxZ_def)
  have moved: "snd (flee_move 60 10201 (Vec3 (- 1) 0 0) ?objs) =
      tiles @ [steve0\<lparr>position := Vec3 60 0 6, orientation := Vec3 0 (pi / 2) 0\<rparr>,
               pig0, new_Object3D, creeper0]"
    by (simp add: flee_move_objs dir)
       (simp add: nth_append length_tiles list_update_append steve0_def plus_vec3_def vmul_def
        atan2_def)
  have "\<not> glm_length (Vec3 (- 60) 0 (- 6)) < 0.8"
    by (subst glm_length_less) (simp_all add: dot_def power2_eq_square)
  then have far: "\<not> glm_length (getPosition (snd (flee_move 60 10201 (Vec3 (- 1) 0 0) ?objs) ! 10204) -
        getPosition (snd (flee_move 60 10201 (Vec3 (- 1) 0 0) ?objs) ! 10201)) < 0.8"
    by (simp add: moved nth_append length_tiles getPosition_def)
       (simp add: minus_vec3_def creeper0_def)
  have ex: "explode 10204 10201 (snd (flee_move 60 10201 (Vec3 (- 1) 0 0) ?objs)) =
        (snd (flee_move 60 10201 (Vec3 (- 1) 0 0) ?objs), Some 10201, Some 10204)"
    using far by (simp add: explode_def)
  have l: "10204 < length (objects (myScene built))" "10201 < length (objects (myScene built))"
    by (simp_all add: built_objects length_tiles)
  have "steve_step 60 built =
      Some (built\<lparr>steveFleeDir := Vec3 1 0 0,
                  myScene := (myScene built)\<lparr>objects :=
                    tiles @ [steve0\<lparr>position := Vec3 60 0 6, orientation := Vec3 0 (pi / 2) 0\<rparr>,
                             pig0, new_Object3D, creeper0]\<rparr>,
                  steveRef := Some 10201, creeperRef := Some 10204\<rparr>)"
    by (simp add: steve_step_eq[OF built_refs(1) built_refs(2) l] built_refs built_objects dir
        moved ex[unfolded moved])
  then show ?thesis
    by (simp add: built_refs built_objects nth_append length_tiles steve0_def mapMinX_def
        mapMaxX_def)
qed

section \<open>The rotation animation\<close>

lemma vmul_add: "vmul v a + vmul v b = vmul v (a + b)"
  by (simp add: vmul_def plus_vec3_def distrib_left)

lemma vec3_add_assoc: "(a + b) + c = a + (b + c)" for a b c :: vec3
  by (simp add: plus_vec3_def)

lemma tick_animation_eq:
  assumes "target a < length objs"
  shows "tick_animation dt a objs =
     Some (duration a \<le> elapsed a + dt, a\<lparr>elapsed := elapsed a + dt\<rparr>,
           objs[target a := (objs ! target a)\<lparr>orientation :=
              orientation (objs ! target a) + vmul (totalRotation a) (dt / duration a)\<rparr>])"
  using assms by (simp add: tick_animation_def rotate_obj_def)

lemma run_animation_total:
  assumes "target a < length objs" and "\<forall>dt \<in> set dts. 0 < dt" and "dts \<noteq> []"
    and "elapsed a + sum_list dts = duration a"
  shows "\<exists>a' objs'.
           run_animation dts a objs = Some (replicate (length dts - 1) False @ [True], a', objs') \<and>
           elapsed a' = duration a \<and> length objs' = length objs \<and>
           orientation (objs' ! target a) =
             orientation (objs ! target a) + vmul (totalRotation a) (sum_list dts / duration a)"
  using assms
proof (induction dts arbitrary: a objs)
  case Nil
  then show ?case by simp
next
  case (Cons dt rest)
  let ?a1 = "a\<lparr>elapsed := elapsed a + dt\<rparr>"
  let ?objs1 = "objs[target a := (objs ! target a)\<lparr>orientation :=
              orientation (objs ! target a) + vmul (totalRotation a) (dt / duration a)\<rparr>]"
  have t1: "tick_animation dt a objs = Some (duration a \<le> elapsed a + dt, ?a1, ?objs1)"
    using Cons.prems(1) by (rule tick_animation_eq)
  show ?case
  proof (cases "rest = []")
    case True
    with Cons.prems t1 show ?thesis by simp
  next
    case False
    have pos: "\<forall>dt \<in> set rest. 0 < dt" using Cons.prems(2) by simp
    have "0 < sum_list rest"
      using pos False by (induction rest) (auto intro: add_pos_nonneg sum_list_nonneg less_imp_le)
    then have notdone: "\<not> duration a \<le> elapsed a + dt"
      using Cons.prems(4) by simp
    have "\<exists>a' objs'.
           run_animation rest ?a1 ?objs1 =
             Some (replicate (length rest - 1) False @ [True], a', objs') \<and>
           elapsed a' = duration ?a1 \<and> length objs' = length ?objs1 \<and>
           orientation (objs' ! target ?a1) =
             orientation (?objs1 ! target ?a1) +
               vmul (totalRotation ?a1) (sum_list rest / duration ?a1)"
      using Cons.prems pos False by (intro Cons.IH) (simp_all add: add.assoc)
    then obtain a' objs' where
      r: "run_animation rest ?a1 ?objs1 = Some (replicate (length rest - 1) False @ [True], a', objs')"
      and e: "elapsed a' = duration a" and l: "length objs' = length objs"
      and o: "orientation (objs' ! target a) =
             orientation (?objs1 ! target a) + vmul (totalRotation a) (sum_list rest / duration a)"
      by auto
    have rep: "False # replicate (length rest - 1) False @ [True] =
        replicate (length (dt # rest) - 1) False @ [True]"
      using False by (cases rest) simp_all
    have "orientation (objs' ! target a) =
        orientation (objs ! target a) + vmul (totalRotation a) (sum_list (dt # rest) / duration a)"
      using o Cons.prems(1)
      by (simp add: vec3_add_assoc vmul_add add_divide_distrib)
    with t1 r e l notdone rep show ?thesis
      by simp
  qed
qed

text \<open>
  C3. For a rotation animation with duration \<open>D > 0\<close> and total rotation \<open>\<Delta>\<close> whose
  target exists, every tick with frame time \<open>dt\<close> adds \<open>\<Delta> * (dt / D)\<close> to the
  orientation of the target and reports completion exactly when the time elapsed so
  far, \<open>dt\<close> included, has reached \<open>D\<close>. Hence, started at elapsed time 0 and ticked
  through any sequence of positive frame times that sum to \<open>D\<close>, the animation reports
  completion at the last tick and at no tick before it, and leaves the target rotated by
  exactly \<open>\<Delta>\<close>, however \<open>D\<close> is split.
\<close>

theorem rotation_independent_of_partition:
  assumes "0 < duration a" and "target a < length objs"
  shows "(\<forall>dt. \<exists>a' objs'.
            tick_animation dt a objs = Some (duration a \<le> elapsed a + dt, a', objs') \<and>
            elapsed a' = elapsed a + dt \<and>
            orientation (objs' ! target a) =
              orientation (objs ! target a) + vmul (totalRotation a) (dt / duration a))
       \<and> (\<forall>dts. elapsed a = 0 \<and> (\<forall>dt \<in> set dts. 0 < dt) \<and> sum_list dts = duration a \<longrightarrow>
            (\<exists>a' objs'.
               run_animation dts a objs =
                 Some (replicate (length dts - 1) False @ [True], a', objs') \<and>
               elapsed a' = duration a \<and>
               orientation (objs' ! target a) = orientation (objs ! target a) + totalRotation a))"
proof (intro conjI allI impI)
  fix dt
  show "\<exists>a' objs'.
            tick_animation dt a objs = Some (duration a \<le> elapsed a + dt, a', objs') \<and>
            elapsed a' = elapsed a + dt \<and>
            orientation (objs' ! target a) =
              orientation (objs ! target a) + vmul (totalRotation a) (dt / duration a)"
    using assms(2) by (simp add: tick_animation_eq)
next
  fix dts
  assume h: "elapsed a = 0 \<and> (\<forall>dt \<in> set dts. 0 < dt) \<and> sum_list dts = duration a"
  with assms(1) have ne: "dts \<noteq> []" by auto
  from h have "elapsed a + sum_list dts = duration a" by simp
  from run_animation_total[OF assms(2) _ ne this] h obtain a' objs' where
    r: "run_animation dts a objs = Some (replicate (length dts - 1) False @ [True], a', objs')"
    and e: "elapsed a' = duration a"
    and o: "orientation (objs' ! target a) =
             orientation (objs ! target a) + vmul (totalRotation a) (sum_list dts / duration a)"
    by blast
  have "vmul (totalRotation a) (sum_list dts / duration a) = totalRotation a"
    using h assms(1) by (simp add: vmul_def)
  with r e o show "\<exists>a' objs'.
               run_animation dts a objs =
                 Some (replicate (length dts - 1) False @ [True], a', objs') \<and>
               elapsed a' = duration a \<and>
               orientation (objs' ! target a) = orientation (objs ! target a) + totalRotation a"
    by simp
qed

theorem rotation_independent_of_partition_witness:
  "(\<exists>scene spin objs1 objs2 a1 a2.
      bunny (Loaded 1) new_Object3D = Inr scene \<and> animators scene = [[spin]] \<and>
      0 < duration spin \<and> target spin < length (objects scene) \<and> elapsed spin = 0 \<and>
      sum_list [5 / 2, 5 / 2, 5] = duration spin \<and> sum_list [1, 2, 3, 4] = duration spin \<and>
      run_animation [5 / 2, 5 / 2, 5] spin (objects scene) = Some ([False, False, True], a1, objs1) \<and>
      run_animation [1, 2, 3, 4] spin (objects scene) = Some ([False, False, False, True], a2, objs2) \<and>
      orientation (objs1 ! 0) = Vec3 0 (2 * pi) 0 \<and>
      orientation (objs2 ! 0) = Vec3 0 (2 * pi) 0)"
proof -
  let ?spin = "\<lparr>target = 0, duration = 10, totalRotation = Vec3 0 (2 * pi) 0, elapsed = 0\<rparr>"
  let ?b = "move (Vec3 0.2 (- 1) 0) (grow (Vec3 9 9 9) new_Object3D)"
  let ?scene = "\<lparr>program = 1, objects = [?b], animators = [[?spin]]\<rparr>"
  have s: "bunny (Loaded 1) new_Object3D = Inr ?scene"
    by (simp add: bunny_def texturingShader_def Let_def)
  have d: "0 < duration ?spin" and t: "target ?spin < length [?b]"
    by simp_all
  have o: "orientation ?b = Vec3 0 0 0"
    by (simp add: move_def grow_def new_Object3D_def)
  from rotation_independent_of_partition[OF d t, THEN conjunct2, rule_format, of "[5 / 2, 5 / 2, 5]"]
  obtain a1 objs1 where
    r1: "run_animation [5 / 2, 5 / 2, 5] ?spin [?b] = Some ([False, False, True], a1, objs1)"
      "orientation (objs1 ! 0) = orientation ([?b] ! 0) + Vec3 0 (2 * pi) 0"
    by (auto simp: numeral_3_eq_3)
  from rotation_independent_of_partition[OF d t, THEN conjunct2, rule_format, of "[1, 2, 3, 4]"]
  obtain a2 objs2 where
    r2: "run_animation [1, 2, 3, 4] ?spin [?b] = Some ([False, False, False, True], a2, objs2)"
      "orientation (objs2 ! 0) = orientation ([?b] ! 0) + Vec3 0 (2 * pi) 0"
    by (auto simp: numeral_eq_Suc)
  from r1(2) r2(2) o have "orientation (objs1 ! 0) = Vec3 0 (2 * pi) 0"
    "orientation (objs2 ! 0) = Vec3 0 (2 * pi) 0"
    by (simp_all add: plus_vec3_def)
  with s r1(1) r2(1) show ?thesis
    by (intro exI[of _ ?scene] exI[of _ ?spin] exI[of _ objs1] exI[of _ objs2] exI[of _ a1]
        exI[of _ a2]) simp
qed

end
